theory Spec2Isabelle
  imports Complex_Main "HOL-Library.Word"
begin

section \<open>Strings and numerals as Python prints them\<close>

text \<open>
  Python strings are modelled as \<^typ>\<open>string\<close>, one \<^typ>\<open>char\<close> per code point below 256.
  \<open>str_int\<close> is \<^verbatim>\<open>str(n)\<close> of an unbounded Python integer, as an f-string inserts it.
\<close>

definition digit_char :: "nat \<Rightarrow> char" where
  "digit_char d = char_of (48 + d)"

fun str_nat :: "nat \<Rightarrow> string" where
  "str_nat n = (if n < 10 then [digit_char n] else str_nat (n div 10) @ [digit_char (n mod 10)])"

declare str_nat.simps [simp del]

definition str_int :: "int \<Rightarrow> string" where
  "str_int i = (if i < 0 then CHR ''-'' # str_nat (nat (- i)) else str_nat (nat i))"

section \<open>Device discovery: uptime formatting\<close>

text \<open>
  \<^verbatim>\<open>DeviceDiscovery.format_uptime\<close> (scripts/device_discovery.py). Python's \<^verbatim>\<open>//\<close> and \<^verbatim>\<open>%\<close>
  on integers are floor division and its remainder, which is what \<open>div\<close> and \<open>mod\<close> are on
  \<^typ>\<open>int\<close>.
\<close>

definition format_uptime :: "int \<Rightarrow> string" where
  "format_uptime ticks =
     (let seconds = ticks div 100;
          days = seconds div 86400;
          hours = (seconds mod 86400) div 3600;
          minutes = (seconds mod 3600) div 60
      in if days > 0 then str_int days @ ''d '' @ str_int hours @ ''h '' @ str_int minutes @ ''m''
         else if hours > 0 then str_int hours @ ''h '' @ str_int minutes @ ''m''
         else str_int minutes @ ''m'')"

section \<open>Health check: overall status\<close>

text \<open>
  The health data model (scripts/health_check.py). Record fields carry a prefix per record
  (\<open>hm_\<close>, \<open>dh_\<close>), since several records of the repository share field names.
  An optional metric is \<^verbatim>\<open>None\<close> or a \<^verbatim>\<open>HealthMetric\<close> object, which is always truthy.
\<close>

datatype HealthStatus = GOOD | WARNING | CRITICAL | UNKNOWN

datatype metric_value = Number real | Text string

record HealthMetric =
  hm_name :: string
  hm_value :: metric_value
  hm_unit :: string
  hm_status :: HealthStatus
  hm_message :: string

record DeviceHealth =
  dh_device_ip :: string
  dh_hostname :: string
  dh_vendor :: string
  dh_model :: string
  dh_reachable :: bool
  dh_cpu_utilization :: "HealthMetric option"
  dh_memory_usage :: "HealthMetric option"
  dh_flash_usage :: "HealthMetric option"
  dh_temperature_sensors :: "HealthMetric list"
  dh_power_supplies :: "HealthMetric list"
  dh_fans :: "HealthMetric list"
  dh_interface_errors :: "HealthMetric list"
  dh_interface_utilization :: "HealthMetric list"
  dh_uptime :: "HealthMetric option"
  dh_overall_status :: HealthStatus
  dh_errors :: "string list"
  dh_last_check :: string
  dh_check_duration :: real

text \<open>The list \<^verbatim>\<open>all_metrics\<close> that \<^verbatim>\<open>calculate_overall_status\<close> builds.\<close>

definition all_metrics :: "DeviceHealth \<Rightarrow> HealthMetric list" where
  "all_metrics health =
     (case dh_cpu_utilization health of None \<Rightarrow> [] | Some m \<Rightarrow> [m]) @
     (case dh_memory_usage health of None \<Rightarrow> [] | Some m \<Rightarrow> [m]) @
     dh_temperature_sensors health @
     dh_power_supplies health @
     dh_fans health @
     dh_interface_errors health @
     dh_interface_utilization health"

text \<open>
  The counting loop, with its three counters
  \<open>(critical_count, warning_count, total_metrics)\<close> as the accumulator.
\<close>

fun count_metrics :: "HealthMetric list \<Rightarrow> nat \<times> nat \<times> nat \<Rightarrow> nat \<times> nat \<times> nat" where
  "count_metrics [] acc = acc"
| "count_metrics (metric # rest) (critical_count, warning_count, total_metrics) =
     count_metrics rest
       (if hm_status metric = CRITICAL then (critical_count + 1, warning_count, total_metrics + 1)
        else if hm_status metric = WARNING then (critical_count, warning_count + 1, total_metrics + 1)
        else (critical_count, warning_count, total_metrics + 1))"

definition calculate_overall_status :: "DeviceHealth \<Rightarrow> HealthStatus" where
  "calculate_overall_status health =
     (if \<not> dh_reachable health then CRITICAL
      else case count_metrics (all_metrics health) (0, 0, 0) of
        (critical_count, warning_count, total_metrics) \<Rightarrow>
          if total_metrics = 0 then UNKNOWN
          else if critical_count > 0 then CRITICAL
          else if warning_count > 0 then WARNING
          else GOOD)"

text \<open>
  The union of metrics the specification speaks of, as a set: the optional cpu and memory
  metrics and the five metric sequences.
\<close>

definition metric_union :: "DeviceHealth \<Rightarrow> HealthMetric set" where
  "metric_union health =
     set_option (dh_cpu_utilization health) \<union> set_option (dh_memory_usage health) \<union>
     set (dh_temperature_sensors health) \<union> set (dh_power_supplies health) \<union>
     set (dh_fans health) \<union> set (dh_interface_errors health) \<union>
     set (dh_interface_utilization health)"

text \<open>Sample records for the specification's examples.\<close>

definition example_metric :: "HealthStatus \<Rightarrow> HealthMetric" where
  "example_metric s =
     \<lparr>hm_name = ''CPU'', hm_value = Number 10, hm_unit = ''%'', hm_status = s, hm_message = []\<rparr>"

definition example_health :: "bool \<Rightarrow> HealthMetric option \<Rightarrow> HealthMetric list \<Rightarrow> DeviceHealth" where
  "example_health r cpu fans =
     \<lparr>dh_device_ip = ''10.0.0.1'', dh_hostname = ''sw1'', dh_vendor = ''cisco'', dh_model = [],
      dh_reachable = r, dh_cpu_utilization = cpu, dh_memory_usage = None, dh_flash_usage = None,
      dh_temperature_sensors = [], dh_power_supplies = [], dh_fans = fans,
      dh_interface_errors = [], dh_interface_utilization = [], dh_uptime = None,
      dh_overall_status = UNKNOWN, dh_errors = [], dh_last_check = [], dh_check_duration = 0\<rparr>"

section \<open>Python dictionaries\<close>

text \<open>
  A Python \<^verbatim>\<open>dict\<close> keeps its keys in insertion order and assigning to a key that is
  present replaces the value in place. It is modelled as an association list with that
  update; \<open>dict_update\<close> is \<^verbatim>\<open>d.update(e)\<close>, and \<^verbatim>\<open>{**d, **e}\<close> builds the same dictionary.
\<close>

type_synonym ('k, 'v) dict = "('k \<times> 'v) list"

fun dict_set :: "('k, 'v) dict \<Rightarrow> 'k \<Rightarrow> 'v \<Rightarrow> ('k, 'v) dict" where
  "dict_set [] k v = [(k, v)]"
| "dict_set ((k', v') # d) k v =
     (if k' = k then (k, v) # d else (k', v') # dict_set d k v)"

definition dict_get :: "('k, 'v) dict \<Rightarrow> 'k \<Rightarrow> 'v option" where
  "dict_get d k = map_of d k"

definition dict_values :: "('k, 'v) dict \<Rightarrow> 'v list" where
  "dict_values d = map snd d"

definition dict_keys :: "('k, 'v) dict \<Rightarrow> 'k list" where
  "dict_keys d = map fst d"

fun dict_update :: "('k, 'v) dict \<Rightarrow> ('k, 'v) dict \<Rightarrow> ('k, 'v) dict" where
  "dict_update d [] = d"
| "dict_update d ((k, v) # e) = dict_update (dict_set d k v) e"

section \<open>Suite runner\<close>

text \<open>
  What a tool's entry function does when the runner calls it (run_monitoring.py): it
  returns, it raises \<^verbatim>\<open>SystemExit\<close> with a code, it raises an exception of class
  \<^verbatim>\<open>Exception\<close> (with its message), or it raises \<^verbatim>\<open>KeyboardInterrupt\<close>, which
  \<^verbatim>\<open>run_script\<close> does not catch. The code of a \<^verbatim>\<open>SystemExit\<close> is \<^verbatim>\<open>None\<close>, an integer
  (or a value that compares equal to one, such as \<^verbatim>\<open>True\<close>), or another object such as a
  message string.
\<close>

datatype exit_code = NoCode | IntCode int | StrCode string

datatype tool_outcome =
  Returns
  | RaisesSystemExit exit_code
  | RaisesException string
  | RaisesKeyboardInterrupt

datatype propagated = KeyboardInterrupt

record script_result =
  sr_name :: string
  sr_status :: string
  sr_duration :: real
  sr_exit_code :: exit_code
  sr_error :: "string option"
  sr_output_files :: "string list"

text \<open>\<^verbatim>\<open>e.code or 0\<close>: a falsy code (\<^verbatim>\<open>None\<close>, \<^verbatim>\<open>0\<close>, the empty string) becomes 0.\<close>

definition code_or_0 :: "exit_code \<Rightarrow> exit_code" where
  "code_or_0 c =
     (case c of NoCode \<Rightarrow> IntCode 0
      | IntCode n \<Rightarrow> IntCode n
      | StrCode s \<Rightarrow> (if s = [] then IntCode 0 else StrCode s))"

text \<open>
  \<^verbatim>\<open>MonitoringSuite.run_script\<close>. The result starts with status \<open>unknown\<close> and exit code 0
  and is filled in by the branch taken; the \<^verbatim>\<open>finally\<close> block records the duration.
\<close>

definition run_script :: "string \<Rightarrow> tool_outcome \<Rightarrow> real \<Rightarrow> propagated + script_result" where
  "run_script script_name outcome elapsed =
     (let result = \<lparr>sr_name = script_name, sr_status = ''unknown'', sr_duration = 0,
                     sr_exit_code = IntCode 0, sr_error = None, sr_output_files = []\<rparr>
      in case outcome of
        Returns \<Rightarrow>
          Inr (result\<lparr>sr_status := ''success'', sr_exit_code := IntCode 0, sr_duration := elapsed\<rparr>)
      | RaisesSystemExit c \<Rightarrow>
          Inr (result\<lparr>sr_exit_code := code_or_0 c,
                      sr_status := (if c = IntCode 0 \<or> c = NoCode then ''success''
                                    else if c = IntCode 1 then ''warning''
                                    else ''error''),
                      sr_duration := elapsed\<rparr>)
      | RaisesException msg \<Rightarrow>
          Inr (result\<lparr>sr_status := ''error'', sr_error := Some msg, sr_exit_code := IntCode 1,
                      sr_duration := elapsed\<rparr>)
      | RaisesKeyboardInterrupt \<Rightarrow> Inl KeyboardInterrupt)"

text \<open>
  \<^verbatim>\<open>run_monitoring_suite\<close>: the loop over the selected scripts. A name outside the script
  mapping is reported and skipped. \<open>main_of\<close> tells what each tool's entry function does and
  \<open>clock\<close> how long it runs.
\<close>

definition script_mapping :: "string list" where
  "script_mapping =
     [''discovery'', ''health'', ''port'', ''vlan'', ''interface'', ''change'', ''stp'']"

fun run_scripts ::
  "(string \<Rightarrow> tool_outcome) \<Rightarrow> (string \<Rightarrow> real) \<Rightarrow> string list \<Rightarrow>
   (string, script_result) dict \<Rightarrow> propagated + (string, script_result) dict" where
  "run_scripts main_of clock [] results = Inr results"
| "run_scripts main_of clock (script # rest) results =
     (if script \<in> set script_mapping then
        (case run_script script (main_of script) (clock script) of
           Inl e \<Rightarrow> Inl e
         | Inr result \<Rightarrow> run_scripts main_of clock rest (dict_set results script result))
      else run_scripts main_of clock rest results)"

definition run_monitoring_suite ::
  "(string \<Rightarrow> tool_outcome) \<Rightarrow> (string \<Rightarrow> real) \<Rightarrow> string list \<Rightarrow>
   propagated + (string, script_result) dict" where
  "run_monitoring_suite main_of clock scripts = run_scripts main_of clock scripts []"

text \<open>The selection flags of the command line and the list \<^verbatim>\<open>scripts_to_run\<close> built from them.\<close>

record suite_args =
  arg_all :: bool
  arg_discovery :: bool
  arg_health :: bool
  arg_port :: bool
  arg_vlan :: bool
  arg_interface :: bool
  arg_change :: bool
  arg_stp :: bool

definition scripts_to_run :: "suite_args \<Rightarrow> string list" where
  "scripts_to_run args =
     (if arg_all args then
        [''discovery'', ''health'', ''port'', ''vlan'', ''interface'', ''change'', ''stp'']
      else
        (if arg_discovery args then [''discovery''] else []) @
        (if arg_health args then [''health''] else []) @
        (if arg_port args then [''port''] else []) @
        (if arg_vlan args then [''vlan''] else []) @
        (if arg_interface args then [''interface''] else []) @
        (if arg_change args then [''change''] else []) @
        (if arg_stp args then [''stp''] else []))"

definition count_status :: "string \<Rightarrow> (string, script_result) dict \<Rightarrow> nat" where
  "count_status s results = length (filter (\<lambda>r. sr_status r = s) (dict_values results))"

text \<open>
  \<^verbatim>\<open>main\<close>, as the process exit code. With no script selected it exits 1. \<open>init_ok\<close> says
  whether constructing the \<^verbatim>\<open>MonitoringSuite\<close> succeeds (it opens a log file); a failure
  there, or a \<^verbatim>\<open>KeyboardInterrupt\<close> out of a tool, is caught by \<^verbatim>\<open>main\<close> and exits 1.
\<close>

definition main :: "suite_args \<Rightarrow> bool \<Rightarrow> (string \<Rightarrow> tool_outcome) \<Rightarrow> (string \<Rightarrow> real) \<Rightarrow> int" where
  "main args init_ok main_of clock =
     (if scripts_to_run args = [] then 1
      else if \<not> init_ok then 1
      else case run_monitoring_suite main_of clock (scripts_to_run args) of
        Inl KeyboardInterrupt \<Rightarrow> 1
      | Inr results \<Rightarrow>
          (let error_count = count_status ''error'' results;
               warning_count = count_status ''warning'' results
           in if error_count > 0 then 2 else if warning_count > 0 then 1 else 0))"

text \<open>The status that \<^verbatim>\<open>run_script\<close> records for a selected tool.\<close>

definition run_status :: "(string \<Rightarrow> tool_outcome) \<Rightarrow> (string \<Rightarrow> real) \<Rightarrow> string \<Rightarrow> propagated + string" where
  "run_status main_of clock script =
     map_sum id sr_status (run_script script (main_of script) (clock script))"

text \<open>A sample run: discovery returns, the health check exits with code 1.\<close>

definition example_args :: suite_args where
  "example_args =
     \<lparr>arg_all = False, arg_discovery = True, arg_health = True, arg_port = False,
      arg_vlan = False, arg_interface = False, arg_change = False, arg_stp = False\<rparr>"

definition example_tools :: "string \<Rightarrow> tool_outcome" where
  "example_tools script =
     (if script = ''health'' then RaisesSystemExit (IntCode 1) else Returns)"

section \<open>Exceptions, paths and files\<close>

text \<open>
  The exception classes the modelled functions raise, with their messages where the code
  builds one. \<open>JSONDecodeError\<close> and \<open>YAMLError\<close> are what the two parsers raise on a
  malformed file; in Python \<open>JSONDecodeError\<close> is a subclass of \<open>ValueError\<close>, and it is
  kept apart here from the \<open>ValueError\<close> that the repository's code raises itself.
\<close>

datatype py_exception =
  FileNotFoundError string
  | IsADirectoryError
  | ValueError string
  | YAMLError
  | JSONDecodeError
  | CredentialError string
  | EOFError
  | TypeError string
  | OtherError string

text \<open>
  A path is the string pathlib prints for it, in normal form (no trailing separator).
  \<open>path_name\<close>, \<open>path_suffix\<close> and \<open>with_suffix\<close> follow \<^verbatim>\<open>PurePath.name\<close>,
  \<^verbatim>\<open>PurePath.suffix\<close> (the part of the name from its last dot, when that dot is neither
  the first nor the last character of the name) and \<^verbatim>\<open>PurePath.with_suffix\<close>, which
  raises \<^verbatim>\<open>ValueError\<close> on an empty name; \<open>joinpath\<close> is the operator \<^verbatim>\<open>/\<close>.
\<close>

definition path_name :: "string \<Rightarrow> string" where
  "path_name p = rev (takeWhile (\<lambda>c. c \<noteq> CHR ''/'') (rev p))"

definition path_suffix :: "string \<Rightarrow> string" where
  "path_suffix p =
     (let name = path_name p;
          ext = rev (takeWhile (\<lambda>c. c \<noteq> CHR ''.'') (rev name))
      in if CHR ''.'' \<in> set name \<and> length ext + 1 < length name \<and> ext \<noteq> []
         then CHR ''.'' # ext else [])"

definition with_suffix :: "string \<Rightarrow> string \<Rightarrow> py_exception + string" where
  "with_suffix p suffix =
     (if path_name p = [] then Inl (ValueError ''empty name'')
      else Inr (take (length p - length (path_suffix p)) p @ suffix))"

definition joinpath :: "string \<Rightarrow> string \<Rightarrow> string" where
  "joinpath dir name = (if name \<noteq> [] \<and> hd name = CHR ''/'' then name else dir @ ''/'' @ name)"

text \<open>
  The file system: what is at a path, a file with its text or a directory. Writing a file
  and creating a directory succeed in the model; failures of the operating system
  (permissions, a full disk) are outside it.
\<close>

datatype fs_entry = File string | Dir

type_synonym filesystem = "string \<Rightarrow> fs_entry option"

definition mkdir_exist_ok :: "filesystem \<Rightarrow> string \<Rightarrow> filesystem" where
  "mkdir_exist_ok fs p = (if fs p = None then fs(p \<mapsto> Dir) else fs)"

definition write_text :: "filesystem \<Rightarrow> string \<Rightarrow> string \<Rightarrow> filesystem" where
  "write_text fs p text = fs(p \<mapsto> File text)"


section \<open>Configuration loading\<close>

text \<open>
  \<^verbatim>\<open>load_config\<close> (utils/common.py). The two parsers are parameters: each turns the text of
  a file into a configuration or fails. The existence test comes first; the file is then
  opened, which fails on a directory, and only then is the suffix looked at.
\<close>

definition load_config ::
  "(string \<Rightarrow> 'c option) \<Rightarrow> (string \<Rightarrow> 'c option) \<Rightarrow> filesystem \<Rightarrow> string \<Rightarrow> py_exception + 'c" where
  "load_config yaml_safe_load json_load fs config_file =
     (case fs config_file of
        None \<Rightarrow> Inl (FileNotFoundError (''Configuration file not found: '' @ config_file))
      | Some Dir \<Rightarrow> Inl IsADirectoryError
      | Some (File text) \<Rightarrow>
          if path_suffix config_file \<in> set [''.yaml'', ''.yml''] then
            (case yaml_safe_load text of None \<Rightarrow> Inl YAMLError | Some config \<Rightarrow> Inr config)
          else if path_suffix config_file = ''.json'' then
            (case json_load text of None \<Rightarrow> Inl JSONDecodeError | Some config \<Rightarrow> Inr config)
          else Inl (ValueError (''Unsupported configuration file format: '' @ path_suffix config_file)))"

definition is_ValueError :: "py_exception + 'a \<Rightarrow> bool" where
  "is_ValueError r = (case r of Inl (ValueError msg) \<Rightarrow> True | _ \<Rightarrow> False)"

text \<open>A sample file system: one YAML file, one text file, one directory.\<close>

definition example_fs :: filesystem where
  "example_fs =
     [''config/config.yaml'' \<mapsto> File ''logging: {}'', ''notes.txt'' \<mapsto> File ''hello'',
      ''config'' \<mapsto> Dir]"

section \<open>Output formatters\<close>

text \<open>
  \<^verbatim>\<open>str.lower\<close> on code points below 256: the ASCII capitals and the Latin-1 capitals
  (192 to 222, without the multiplication sign 215) move up by 32.
\<close>

definition lower_char :: "char \<Rightarrow> char" where
  "lower_char c =
     (let n = (of_char c :: nat)
      in if (65 \<le> n \<and> n \<le> 90) \<or> (192 \<le> n \<and> n \<le> 222 \<and> n \<noteq> 215) then char_of (n + 32) else c)"

definition lower :: "string \<Rightarrow> string" where
  "lower s = map lower_char s"

text \<open>
  The writers of utils/output_formatters.py. What each makes of the payload (pandas, jinja2,
  json) is a parameter: the text it produces for the payload, or the exception it raises.
  \<^verbatim>\<open>_format_json\<close> and \<^verbatim>\<open>_format_excel\<close> open the file before they serialise, so a failure
  leaves the text written so far; \<^verbatim>\<open>_format_csv\<close> and \<^verbatim>\<open>_format_html\<close> build the text first
  and open the file afterwards.
\<close>

record 'd renderers =
  json_dump :: "'d \<Rightarrow> string \<times> py_exception option"
  csv_table :: "'d \<Rightarrow> py_exception + string"
  html_page :: "'d \<Rightarrow> py_exception + string"
  excel_book :: "'d \<Rightarrow> string \<times> py_exception option"

type_synonym 'a io = "(py_exception + 'a) \<times> filesystem"

definition write_then_fail :: "string \<times> py_exception option \<Rightarrow> string \<Rightarrow> filesystem \<Rightarrow> string io" where
  "write_then_fail out filepath fs =
     (case out of
        (text, None) \<Rightarrow> (Inr filepath, write_text fs filepath text)
      | (text, Some e) \<Rightarrow> (Inl e, write_text fs filepath text))"

definition render_then_write :: "py_exception + string \<Rightarrow> string \<Rightarrow> filesystem \<Rightarrow> string io" where
  "render_then_write out filepath fs =
     (case out of
        Inl e \<Rightarrow> (Inl e, fs)
      | Inr text \<Rightarrow> (Inr filepath, write_text fs filepath text))"

definition format_json :: "'d renderers \<Rightarrow> 'd \<Rightarrow> string \<Rightarrow> filesystem \<Rightarrow> string io" where
  "format_json R data filepath fs = write_then_fail (json_dump R data) filepath fs"

definition format_csv :: "'d renderers \<Rightarrow> 'd \<Rightarrow> string \<Rightarrow> filesystem \<Rightarrow> string io" where
  "format_csv R data filepath fs = render_then_write (csv_table R data) filepath fs"

definition format_html :: "'d renderers \<Rightarrow> 'd \<Rightarrow> string \<Rightarrow> filesystem \<Rightarrow> string io" where
  "format_html R data filepath fs = render_then_write (html_page R data) filepath fs"

definition format_excel :: "'d renderers \<Rightarrow> 'd \<Rightarrow> string \<Rightarrow> filesystem \<Rightarrow> string io" where
  "format_excel R data filepath fs = write_then_fail (excel_book R data) filepath fs"

text \<open>
  \<^verbatim>\<open>_format_pdf\<close>: the HTML page is written beside the requested path, under the suffix
  \<open>.html\<close>, and that path is returned.
\<close>

definition format_pdf :: "'d renderers \<Rightarrow> 'd \<Rightarrow> string \<Rightarrow> filesystem \<Rightarrow> string io" where
  "format_pdf R data filepath fs =
     (case with_suffix filepath ''.html'' of
        Inl e \<Rightarrow> (Inl e, fs)
      | Inr html_path \<Rightarrow>
          (case format_html R data html_path fs of
             (Inl e, fs') \<Rightarrow> (Inl e, fs')
           | (Inr written, fs') \<Rightarrow> (Inr html_path, fs')))"

text \<open>
  \<^verbatim>\<open>format_output\<close>. \<open>filename\<close> is \<open>None\<close> or the base name given; an absent or empty
  name is replaced by \<open>output_<now>\<close>, where \<open>now\<close> is the formatted current time.
\<close>

definition format_output ::
  "'d renderers \<Rightarrow> string \<Rightarrow> 'd \<Rightarrow> string \<Rightarrow> string option \<Rightarrow> string \<Rightarrow> filesystem \<Rightarrow> string io" where
  "format_output R now data format_type filename output_dir fs =
     (let fs1 = mkdir_exist_ok fs output_dir;
          filename = (case filename of None \<Rightarrow> ''output_'' @ now
                      | Some f \<Rightarrow> if f = [] then ''output_'' @ now else f)
      in if lower format_type = ''json'' then
           format_json R data (joinpath output_dir (filename @ ''.json'')) fs1
         else if lower format_type = ''csv'' then
           format_csv R data (joinpath output_dir (filename @ ''.csv'')) fs1
         else if lower format_type = ''html'' then
           format_html R data (joinpath output_dir (filename @ ''.html'')) fs1
         else if lower format_type = ''excel'' then
           format_excel R data (joinpath output_dir (filename @ ''.xlsx'')) fs1
         else if lower format_type = ''pdf'' then
           format_pdf R data (joinpath output_dir (filename @ ''.pdf'')) fs1
         else (Inl (ValueError (''Unsupported format type: '' @ format_type)), fs1))"



section \<open>Retry wrapper\<close>












section \<open>Credential manager\<close>

text \<open>
  \<^verbatim>\<open>str.strip\<close> removes the white space of \<^verbatim>\<open>str.isspace\<close> from both ends; below code
  point 256 that is 9 to 13, 28 to 32, 133 and 160.
\<close>

definition is_space :: "char \<Rightarrow> bool" where
  "is_space c =
     (let n = (of_char c :: nat)
      in (9 \<le> n \<and> n \<le> 13) \<or> (28 \<le> n \<and> n \<le> 32) \<or> n = 133 \<or> n = 160)"

definition strip :: "string \<Rightarrow> string" where
  "strip s = rev (dropWhile is_space (rev (dropWhile is_space s)))"

text \<open>
  \<^verbatim>\<open>CredentialManager.get_credentials\<close> (utils/common.py). The environment maps a variable
  to its value, if set. \<open>truthy\<close> is Python's truth of an optional string, and \<open>env_or\<close>
  is \<^verbatim>\<open>os.environ.get(a) or os.environ.get(b)\<close>. The state of the manager's process is the
  credential cache, the lines the user will type (consumed by \<^verbatim>\<open>input\<close> and
  \<^verbatim>\<open>getpass\<close>, which raise \<^verbatim>\<open>EOFError\<close> when there is none) and the prompts shown so
  far. The user name may be \<^verbatim>\<open>None\<close> (nothing set and no prompting), so the cache is keyed
  by an optional string. The function is split at its two comments, \<open>Get username\<close> and
  \<open>Get password from environment\<close>/\<open>Prompt for password if needed\<close>.
\<close>

type_synonym environ = "string \<Rightarrow> string option"

definition truthy :: "string option \<Rightarrow> bool" where
  "truthy x = (case x of None \<Rightarrow> False | Some s \<Rightarrow> s \<noteq> [])"

definition env_or :: "environ \<Rightarrow> string \<Rightarrow> string \<Rightarrow> string option" where
  "env_or env a b = (if truthy (env a) then env a else env b)"

record credentials =
  cr_username :: "string option"
  cr_password :: string
  cr_secret :: "string option"

record session =
  credentials_cache :: "(string option, credentials) dict"
  answers :: "string list"
  prompts :: "string list"

definition read_answer :: "string \<Rightarrow> session \<Rightarrow> (py_exception + string) \<times> session" where
  "read_answer prompt st =
     (case answers st of
        [] \<Rightarrow> (Inl EOFError, st\<lparr>prompts := prompts st @ [prompt]\<rparr>)
      | line # rest \<Rightarrow> (Inr line, st\<lparr>answers := rest, prompts := prompts st @ [prompt]\<rparr>))"

definition str_optional :: "string option \<Rightarrow> string" where
  "str_optional x = (case x of None \<Rightarrow> ''None'' | Some s \<Rightarrow> s)"

definition resolve_username ::
  "environ \<Rightarrow> string option \<Rightarrow> bool \<Rightarrow> session \<Rightarrow> (py_exception + string option) \<times> session" where
  "resolve_username env username prompt_for_password st =
     (if \<not> truthy username then
        (let username = env_or env ''NETWORK_USERNAME'' ''DEFAULT_USERNAME''
         in if \<not> truthy username \<and> prompt_for_password then
              (case read_answer ''Enter username: '' st of
                 (Inl e, st') \<Rightarrow> (Inl e, st')
               | (Inr line, st') \<Rightarrow> (Inr (Some (strip line)), st'))
            else (Inr username, st))
      else (Inr username, st))"

definition resolve_password ::
  "environ \<Rightarrow> string option \<Rightarrow> bool \<Rightarrow> session \<Rightarrow> (py_exception + string option) \<times> session" where
  "resolve_password env username prompt_for_password st =
     (let password = env_or env ''NETWORK_PASSWORD'' ''DEFAULT_PASSWORD''
      in if \<not> truthy password \<and> prompt_for_password then
           (case read_answer (''Enter password for '' @ str_optional username @ '': '') st of
              (Inl e, st') \<Rightarrow> (Inl e, st')
            | (Inr line, st') \<Rightarrow> (Inr (Some line), st'))
         else (Inr password, st))"

definition get_credentials ::
  "environ \<Rightarrow> string option \<Rightarrow> bool \<Rightarrow> session \<Rightarrow> (py_exception + credentials) \<times> session" where
  "get_credentials env username prompt_for_password st =
     (case resolve_username env username prompt_for_password st of
        (Inl e, st1) \<Rightarrow> (Inl e, st1)
      | (Inr username, st1) \<Rightarrow>
          (case dict_get (credentials_cache st1) username of
             Some cached \<Rightarrow> (Inr cached, st1)
           | None \<Rightarrow>
               (case resolve_password env username prompt_for_password st1 of
                  (Inl e, st2) \<Rightarrow> (Inl e, st2)
                | (Inr password, st2) \<Rightarrow>
                    if \<not> truthy password then (Inl (CredentialError ''No password available''), st2)
                    else
                      (let secret = env_or env ''ENABLE_PASSWORD'' ''DEFAULT_SECRET'';
                           credentials = \<lparr>cr_username = username, cr_password = the password,
                                           cr_secret = (if truthy secret then secret else None)\<rparr>
                       in (Inr credentials,
                           st2\<lparr>credentials_cache :=
                                 dict_set (credentials_cache st2) username credentials\<rparr>)))))"

text \<open>A sample environment and session: the user name is set, the password is typed.\<close>

definition example_env :: environ where
  "example_env = [''NETWORK_USERNAME'' \<mapsto> ''admin'', ''DEFAULT_USERNAME'' \<mapsto> ''guest'']"

definition example_session :: session where
  "example_session = \<lparr>credentials_cache = [], answers = [''s3cret''], prompts = []\<rparr>"

definition admin_credentials :: credentials where
  "admin_credentials = \<lparr>cr_username = Some ''admin'', cr_password = ''s3cret'', cr_secret = None\<rparr>"

definition admin_session :: session where
  "admin_session =
     \<lparr>credentials_cache = [(Some ''admin'', admin_credentials)], answers = [],
      prompts = [''Enter password for admin: '']\<rparr>"

section \<open>Device discovery: data model\<close>

text \<open>
  Substring tests: \<open>startswith s p\<close> is \<^verbatim>\<open>s.startswith(p)\<close> and \<open>contains s sub\<close> is
  \<^verbatim>\<open>sub in s\<close>.
\<close>

fun startswith :: "string \<Rightarrow> string \<Rightarrow> bool" where
  "startswith s [] = True"
| "startswith [] (c # p) = False"
| "startswith (x # s) (c # p) = (x = c \<and> startswith s p)"

fun contains :: "string \<Rightarrow> string \<Rightarrow> bool" where
  "contains [] sub = (sub = [])"
| "contains (x # s) sub = (startswith (x # s) sub \<or> contains s sub)"

text \<open>
  \<^verbatim>\<open>DeviceCapabilities\<close> (utils/device_types.py) and \<^verbatim>\<open>DeviceInfo\<close>
  (scripts/device_discovery.py), with prefixes \<open>dc_\<close> and \<open>di_\<close> on the field names, and
  the two constructors with the defaults of the dataclasses.
\<close>

record DeviceCapabilities =
  dc_vendor :: string
  dc_model :: "string option"
  dc_version :: "string option"
  dc_supports_enable_mode :: bool
  dc_supports_config_mode :: bool
  dc_supports_commit :: bool
  dc_supports_rollback :: bool
  dc_supports_archive :: bool
  dc_supports_scp :: bool
  dc_supports_https :: bool
  dc_max_vlan_id :: int
  dc_features :: "string list"
  dc_command_syntax :: string

definition new_DeviceCapabilities :: "string \<Rightarrow> DeviceCapabilities" where
  "new_DeviceCapabilities vendor =
     \<lparr>dc_vendor = vendor, dc_model = None, dc_version = None,
      dc_supports_enable_mode = True, dc_supports_config_mode = True,
      dc_supports_commit = False, dc_supports_rollback = False, dc_supports_archive = False,
      dc_supports_scp = False, dc_supports_https = False, dc_max_vlan_id = 4094,
      dc_features = [], dc_command_syntax = ''cisco''\<rparr>"

record DeviceInfo =
  di_ip_address :: string
  di_hostname :: string
  di_vendor :: string
  di_model :: string
  di_serial :: string
  di_os_version :: string
  di_device_type :: string
  di_role :: string
  di_location :: string
  di_uptime :: string
  di_management_ip :: string
  di_interfaces_count :: int
  di_vlans_count :: int
  di_mac_address :: string
  di_snmp_community :: string
  di_ssh_enabled :: bool
  di_telnet_enabled :: bool
  di_https_enabled :: bool
  di_discovery_method :: string
  di_last_seen :: string
  di_reachable :: bool
  di_response_time :: real
  di_capabilities :: "DeviceCapabilities option"

definition new_DeviceInfo :: "string \<Rightarrow> string \<Rightarrow> DeviceInfo" where
  "new_DeviceInfo ip method =
     \<lparr>di_ip_address = ip, di_hostname = [], di_vendor = [], di_model = [], di_serial = [],
      di_os_version = [], di_device_type = [], di_role = [], di_location = [], di_uptime = [],
      di_management_ip = [], di_interfaces_count = 0, di_vlans_count = 0, di_mac_address = [],
      di_snmp_community = [], di_ssh_enabled = False, di_telnet_enabled = False,
      di_https_enabled = False, di_discovery_method = method, di_last_seen = [],
      di_reachable = False, di_response_time = 0, di_capabilities = None\<rparr>"

text \<open>
  \<^verbatim>\<open>datetime.now().isoformat()\<close>: the date and the time of day, zero-padded, joined by
  \<open>T\<close>, with the microseconds when they are not zero.
\<close>

record datetime =
  dt_year :: nat
  dt_month :: nat
  dt_day :: nat
  dt_hour :: nat
  dt_minute :: nat
  dt_second :: nat
  dt_microsecond :: nat

definition zero_pad :: "nat \<Rightarrow> nat \<Rightarrow> string" where
  "zero_pad width n = replicate (width - length (str_nat n)) CHR ''0'' @ str_nat n"

definition isoformat :: "datetime \<Rightarrow> string" where
  "isoformat dt =
     zero_pad 4 (dt_year dt) @ ''-'' @ zero_pad 2 (dt_month dt) @ ''-'' @ zero_pad 2 (dt_day dt) @
     ''T'' @ zero_pad 2 (dt_hour dt) @ '':'' @ zero_pad 2 (dt_minute dt) @ '':'' @
     zero_pad 2 (dt_second dt) @
     (if dt_microsecond dt = 0 then [] else ''.'' @ zero_pad 6 (dt_microsecond dt))"

section \<open>Device discovery: one address\<close>

text \<open>
  What the network and the devices answer is the parameter \<open>net\<close> of the discovery
  functions: the TCP probe of port 22 and the time it takes in milliseconds, the port scan,
  the SNMP replies by address, community and OID (a value, an error indication, or an
  exception), the credentials the credential manager hands out, the logins of the
  device-type detector, the pooled connection (\<open>connect_failure\<close> is the exception of
  \<^verbatim>\<open>create_connection\<close>, if any) and its command outputs, and the current time. The text
  heuristics \<^verbatim>\<open>parse_version_output\<close>, \<^verbatim>\<open>parse_hostname\<close>, \<^verbatim>\<open>parse_model\<close>,
  \<^verbatim>\<open>parse_serial\<close> and \<^verbatim>\<open>count_interfaces\<close> and Python's \<^verbatim>\<open>int\<close> on a string are
  taken as parameters too: no property below depends on what they compute.
\<close>

datatype connect_result = Connected | Refused | SocketError

datatype snmp_reply = SnmpValue string | SnmpError | SnmpRaises

record network =
  probe_connect :: "string \<Rightarrow> connect_result"
  probe_time :: "string \<Rightarrow> real"
  scan_connect :: "string \<Rightarrow> nat \<Rightarrow> connect_result"
  snmp_get :: "string \<Rightarrow> string \<Rightarrow> string \<Rightarrow> snmp_reply"
  int_of_str :: "string \<Rightarrow> int option"
  stored_credentials :: "py_exception + credentials"
  login :: "string \<Rightarrow> string \<Rightarrow> string option \<Rightarrow> string \<Rightarrow> bool"
  show_version :: "string \<Rightarrow> string \<Rightarrow> string option"
  logout :: "string \<Rightarrow> string \<Rightarrow> bool"
  connect_failure :: "string \<Rightarrow> string \<Rightarrow> py_exception option"
  send_command :: "string \<Rightarrow> string \<Rightarrow> py_exception + string"
  disconnect :: "string \<Rightarrow> py_exception option"
  parse_version_output :: "string \<Rightarrow> string \<Rightarrow> string"
  parse_hostname :: "string \<Rightarrow> string \<Rightarrow> string"
  parse_model :: "string \<Rightarrow> string \<Rightarrow> string"
  parse_serial :: "string \<Rightarrow> string \<Rightarrow> string"
  count_interfaces :: "string \<Rightarrow> string \<Rightarrow> int"
  clock_now :: datetime

text \<open>
  \<^verbatim>\<open>is_host_reachable\<close> and \<^verbatim>\<open>scan_ports\<close>: a connection attempt that raises counts
  as closed, and the probe then reports the time 0.
\<close>

definition is_host_reachable :: "network \<Rightarrow> string \<Rightarrow> bool \<times> real" where
  "is_host_reachable net ip =
     (case probe_connect net ip of
        Connected \<Rightarrow> (True, probe_time net ip)
      | Refused \<Rightarrow> (False, probe_time net ip)
      | SocketError \<Rightarrow> (False, 0))"

definition common_ports :: "nat list" where
  "common_ports = [22, 23, 80, 443, 161, 830]"

fun scan_loop :: "network \<Rightarrow> string \<Rightarrow> nat list \<Rightarrow> (nat, bool) dict \<Rightarrow> (nat, bool) dict" where
  "scan_loop net ip [] open_ports = open_ports"
| "scan_loop net ip (port # rest) open_ports =
     scan_loop net ip rest
       (dict_set open_ports port
          (case scan_connect net ip port of
             Connected \<Rightarrow> True | Refused \<Rightarrow> False | SocketError \<Rightarrow> False))"

definition scan_ports :: "network \<Rightarrow> string \<Rightarrow> (nat, bool) dict" where
  "scan_ports net ip = scan_loop net ip common_ports []"

definition dict_get_default :: "('k, 'v) dict \<Rightarrow> 'k \<Rightarrow> 'v \<Rightarrow> 'v" where
  "dict_get_default d k v = (case dict_get d k of None \<Rightarrow> v | Some x \<Rightarrow> x)"

text \<open>
  \<^verbatim>\<open>snmp_discovery\<close>. For each community the five OIDs are queried in order; an error
  indication skips the OID, a value is stored by the OID's name, and any exception (of the
  query, or of \<^verbatim>\<open>int\<close> on the uptime) abandons the community. The record is returned
  only with a vendor, and is then marked reachable. The function runs under
  \<^verbatim>\<open>retry_on_failure\<close>, which never sees an exception here, since every exception is
  caught inside the loop; the same holds for \<^verbatim>\<open>ssh_discovery\<close>.
\<close>

definition parse_snmp_description :: "string \<Rightarrow> string \<times> string" where
  "parse_snmp_description description0 =
     (let description = lower description0
      in if contains description ''cisco'' then
           (''Cisco'',
            if contains description ''catalyst'' then ''Catalyst''
            else if contains description ''nexus'' then ''Nexus''
            else if contains description ''asr'' then ''ASR''
            else if contains description ''isr'' then ''ISR''
            else ''Unknown'')
         else if contains description ''arista'' \<or> contains description ''eos'' then
           (''Arista'', ''EOS Switch'')
         else if contains description ''juniper'' \<or> contains description ''junos'' then
           (''Juniper'',
            if contains description ''ex'' then ''EX Series''
            else if contains description ''qfx'' then ''QFX Series''
            else if contains description ''mx'' then ''MX Series''
            else ''Unknown'')
         else if contains description ''hp'' \<or> contains description ''hewlett'' then
           (''HP'',
            if contains description ''procurve'' then ''ProCurve''
            else if contains description ''aruba'' then ''Aruba''
            else ''Unknown'')
         else if contains description ''dell'' then (''Dell'', ''PowerConnect'')
         else (''Unknown'', ''Unknown''))"

definition oids :: "(string \<times> string) list" where
  "oids =
     [(''sysDescr'', ''1.3.6.1.2.1.1.1.0''), (''sysName'', ''1.3.6.1.2.1.1.5.0''),
      (''sysUpTime'', ''1.3.6.1.2.1.1.3.0''), (''sysContact'', ''1.3.6.1.2.1.1.4.0''),
      (''sysLocation'', ''1.3.6.1.2.1.1.6.0'')]"

definition snmp_assign :: "network \<Rightarrow> string \<Rightarrow> string \<Rightarrow> DeviceInfo \<Rightarrow> py_exception + DeviceInfo" where
  "snmp_assign net name val device_info =
     (if name = ''sysDescr'' then
        (case parse_snmp_description val of
           (vendor, model) \<Rightarrow>
             Inr (device_info\<lparr>di_os_version := val, di_vendor := vendor, di_model := model\<rparr>))
      else if name = ''sysName'' then Inr (device_info\<lparr>di_hostname := val\<rparr>)
      else if name = ''sysLocation'' then Inr (device_info\<lparr>di_location := val\<rparr>)
      else if name = ''sysUpTime'' then
        (case int_of_str net val of
           None \<Rightarrow> Inl (ValueError ''invalid literal for int()'')
         | Some ticks \<Rightarrow> Inr (device_info\<lparr>di_uptime := format_uptime ticks\<rparr>))
      else Inr device_info)"

fun snmp_query_all ::
  "network \<Rightarrow> string \<Rightarrow> string \<Rightarrow> (string \<times> string) list \<Rightarrow> DeviceInfo \<Rightarrow> py_exception + DeviceInfo" where
  "snmp_query_all net ip community [] device_info = Inr device_info"
| "snmp_query_all net ip community ((name, oid) # rest) device_info =
     (case snmp_get net ip community oid of
        SnmpRaises \<Rightarrow> Inl (OtherError ''SNMP'')
      | SnmpError \<Rightarrow> snmp_query_all net ip community rest device_info
      | SnmpValue val \<Rightarrow>
          (case snmp_assign net name val device_info of
             Inl e \<Rightarrow> Inl e
           | Inr device_info' \<Rightarrow> snmp_query_all net ip community rest device_info'))"

fun snmp_communities_loop :: "network \<Rightarrow> string \<Rightarrow> string list \<Rightarrow> DeviceInfo option" where
  "snmp_communities_loop net ip [] = None"
| "snmp_communities_loop net ip (community # rest) =
     (case snmp_query_all net ip community oids
             ((new_DeviceInfo ip ''SNMP'')\<lparr>di_snmp_community := community\<rparr>) of
        Inl e \<Rightarrow> snmp_communities_loop net ip rest
      | Inr device_info \<Rightarrow>
          if di_vendor device_info \<noteq> [] then Some (device_info\<lparr>di_reachable := True\<rparr>)
          else snmp_communities_loop net ip rest)"

definition snmp_discovery :: "network \<Rightarrow> string list \<Rightarrow> string \<Rightarrow> DeviceInfo option" where
  "snmp_discovery net snmp_communities ip = snmp_communities_loop net ip snmp_communities"

text \<open>
  The device-type detector (utils/device_types.py): the candidate types are tried in
  order, and the first login that succeeds, and whose session closes without an exception,
  gives the type and its capabilities.
\<close>

definition detect_capabilities :: "string \<Rightarrow> string \<Rightarrow> DeviceCapabilities" where
  "detect_capabilities device_type version_output =
     (let capabilities = new_DeviceCapabilities device_type
      in if contains device_type ''cisco'' then
           (if contains version_output ''IOS XR'' then
              capabilities\<lparr>dc_vendor := ''cisco'', dc_supports_commit := True,
                           dc_supports_rollback := True\<rparr>
            else if contains version_output ''IOS'' \<or> contains version_output ''IOS-XE'' then
              capabilities\<lparr>dc_vendor := ''cisco'', dc_supports_archive := True\<rparr>
            else capabilities\<lparr>dc_vendor := ''cisco''\<rparr>)
         else if device_type = ''arista_eos'' then
           capabilities\<lparr>dc_vendor := ''arista'', dc_supports_rollback := True\<rparr>
         else if device_type = ''juniper_junos'' then
           capabilities\<lparr>dc_vendor := ''juniper'', dc_supports_commit := True,
                        dc_supports_rollback := True, dc_command_syntax := ''junos''\<rparr>
         else if device_type = ''linux'' then
           capabilities\<lparr>dc_vendor := ''linux'', dc_supports_enable_mode := False,
                        dc_supports_config_mode := False, dc_command_syntax := ''linux''\<rparr>
         else capabilities)"

definition device_types :: "string list" where
  "device_types =
     [''cisco_ios'', ''cisco_xe'', ''cisco_xr'', ''cisco_nxos'', ''cisco_asa'', ''arista_eos'',
      ''juniper_junos'', ''hp_procurve'', ''hp_comware'', ''fortinet'', ''paloalto_panos'',
      ''vyos'', ''linux'']"

fun detect_loop ::
  "network \<Rightarrow> string \<Rightarrow> string option \<Rightarrow> string \<Rightarrow> string list \<Rightarrow>
   string option \<times> DeviceCapabilities option" where
  "detect_loop net host username password [] = (None, None)"
| "detect_loop net host username password (device_type # rest) =
     (if login net host device_type username password then
        (let version_output = (case show_version net host device_type of
                                 None \<Rightarrow> [] | Some out \<Rightarrow> out);
             capabilities = detect_capabilities device_type version_output
         in if logout net host device_type then (Some device_type, Some capabilities)
            else detect_loop net host username password rest)
      else detect_loop net host username password rest)"

definition detect_device_type ::
  "network \<Rightarrow> string \<Rightarrow> string option \<Rightarrow> string \<Rightarrow> string option \<times> DeviceCapabilities option" where
  "detect_device_type net host username password =
     detect_loop net host username password device_types"

definition get_device_commands :: "string \<Rightarrow> (string, string) dict" where
  "get_device_commands vendor =
     (if vendor = ''cisco'' then
        [(''version'', ''show version''), (''interfaces'', ''show interfaces''),
         (''inventory'', ''show inventory''), (''cpu'', ''show processes cpu sorted''),
         (''memory'', ''show memory statistics''), (''config'', ''show running-config'')]
      else if vendor = ''arista'' then
        [(''version'', ''show version''), (''interfaces'', ''show interfaces''),
         (''inventory'', ''show inventory''), (''cpu'', ''show processes top once''),
         (''memory'', ''show version detail''), (''config'', ''show running-config'')]
      else if vendor = ''juniper'' then
        [(''version'', ''show version''), (''interfaces'', ''show interfaces terse''),
         (''inventory'', ''show chassis hardware''), (''cpu'', ''show chassis routing-engine''),
         (''memory'', ''show chassis routing-engine''), (''config'', ''show configuration'')]
      else if vendor = ''linux'' then
        [(''version'', ''uname -a''), (''interfaces'', ''ip addr show''),
         (''inventory'', ''dmidecode -t system''), (''cpu'', ''top -bn1 | head -20''),
         (''memory'', ''free -m''), (''config'', ''cat /etc/network/interfaces'')]
      else [])"

text \<open>
  \<^verbatim>\<open>ssh_discovery\<close>: any exception on the way (no credentials, a failed connection, a
  failed command, a failed disconnect) makes it return \<^verbatim>\<open>None\<close>.
\<close>

definition determine_device_role :: "DeviceInfo \<Rightarrow> string" where
  "determine_device_role device_info =
     (if di_interfaces_count device_info > 48 then ''core''
      else if di_interfaces_count device_info > 24 then ''distribution''
      else if di_interfaces_count device_info > 0 then ''access''
      else ''unknown'')"

definition ssh_version_step :: "network \<Rightarrow> string \<Rightarrow> DeviceCapabilities \<Rightarrow> (string, string) dict \<Rightarrow> DeviceInfo \<Rightarrow> py_exception + DeviceInfo" where
  "ssh_version_step net ip capabilities commands device_info =
     (case dict_get commands ''version'' of
        None \<Rightarrow> Inr device_info
      | Some command \<Rightarrow>
          (case send_command net ip command of
             Inl e \<Rightarrow> Inl e
           | Inr output \<Rightarrow>
               Inr (device_info
                 \<lparr>di_os_version := parse_version_output net output (dc_vendor capabilities),
                  di_hostname := parse_hostname net output (dc_vendor capabilities),
                  di_model := parse_model net output (dc_vendor capabilities),
                  di_serial := parse_serial net output (dc_vendor capabilities),
                  di_vendor := dc_vendor capabilities\<rparr>)))"

definition ssh_interfaces_step :: "network \<Rightarrow> string \<Rightarrow> DeviceCapabilities \<Rightarrow> (string, string) dict \<Rightarrow> DeviceInfo \<Rightarrow> py_exception + DeviceInfo" where
  "ssh_interfaces_step net ip capabilities commands device_info =
     (case dict_get commands ''interfaces'' of
        None \<Rightarrow> Inr device_info
      | Some command \<Rightarrow>
          (case send_command net ip command of
             Inl e \<Rightarrow> Inl e
           | Inr output \<Rightarrow>
               Inr (device_info
                 \<lparr>di_interfaces_count := count_interfaces net output (dc_vendor capabilities)\<rparr>)))"

definition ssh_collect :: "network \<Rightarrow> string \<Rightarrow> string \<Rightarrow> DeviceCapabilities option \<Rightarrow> py_exception + DeviceInfo" where
  "ssh_collect net ip device_type capabilities =
     (let device_info = (new_DeviceInfo ip ''SSH'')
            \<lparr>di_device_type := device_type, di_capabilities := capabilities,
             di_ssh_enabled := True, di_reachable := True\<rparr>
      in case capabilities of
           None \<Rightarrow> Inl (OtherError ''AttributeError'')
         | Some caps \<Rightarrow>
             (let commands = get_device_commands (dc_vendor caps)
              in case ssh_version_step net ip caps commands device_info of
                   Inl e \<Rightarrow> Inl e
                 | Inr device_info1 \<Rightarrow>
                     (case ssh_interfaces_step net ip caps commands device_info1 of
                        Inl e \<Rightarrow> Inl e
                      | Inr device_info2 \<Rightarrow>
                          (let device_info3 =
                                 device_info2\<lparr>di_role := determine_device_role device_info2\<rparr>
                           in case disconnect net ip of
                                Some e \<Rightarrow> Inl e
                              | None \<Rightarrow> Inr device_info3))))"

definition ssh_discovery :: "network \<Rightarrow> string \<Rightarrow> DeviceInfo option" where
  "ssh_discovery net ip =
     (case stored_credentials net of
        Inl e \<Rightarrow> None
      | Inr credentials \<Rightarrow>
          (case detect_device_type net ip (cr_username credentials) (cr_password credentials) of
             (device_type, capabilities) \<Rightarrow>
               if \<not> truthy device_type then None
               else
                 (case connect_failure net ip (the device_type) of
                    Some e \<Rightarrow> None
                  | None \<Rightarrow>
                      (case ssh_collect net ip (the device_type) capabilities of
                         Inl e \<Rightarrow> None
                       | Inr device_info \<Rightarrow> Some device_info))))"

text \<open>
  \<^verbatim>\<open>discover_single_device\<close>: the probe, the port scan, SNMP when port 161 is open, then
  SSH when port 22 is open; \<open>enrich\<close> is the block that both branches run on the record
  they found.
\<close>

definition enrich :: "network \<Rightarrow> real \<Rightarrow> (nat, bool) dict \<Rightarrow> DeviceInfo \<Rightarrow> DeviceInfo" where
  "enrich net response_time open_ports device_info =
     device_info\<lparr>di_response_time := response_time, di_last_seen := isoformat (clock_now net),
                 di_https_enabled := dict_get_default open_ports 443 False,
                 di_telnet_enabled := dict_get_default open_ports 23 False\<rparr>"

definition discover_single_device :: "network \<Rightarrow> string list \<Rightarrow> string \<Rightarrow> DeviceInfo option" where
  "discover_single_device net snmp_communities ip =
     (case is_host_reachable net ip of
        (reachable, response_time) \<Rightarrow>
          if \<not> reachable then None
          else
            (let open_ports = scan_ports net ip;
                 by_snmp = (if dict_get_default open_ports 161 False
                            then snmp_discovery net snmp_communities ip else None)
             in case by_snmp of
                  Some device_info \<Rightarrow> Some (enrich net response_time open_ports device_info)
                | None \<Rightarrow>
                    (let by_ssh = (if dict_get_default open_ports 22 False
                                   then ssh_discovery net ip else None)
                     in case by_ssh of
                          Some device_info \<Rightarrow> Some (enrich net response_time open_ports device_info)
                        | None \<Rightarrow> None)))"

text \<open>
  A sample network: two addresses answer the probe, have the ports 22 and 161 open and
  answer SNMP queries of the community \<open>public\<close> as Cisco switches; nothing else answers.
\<close>

definition example_reply :: "string \<Rightarrow> string \<Rightarrow> string \<Rightarrow> snmp_reply" where
  "example_reply ip community oid =
     (if community = ''public'' \<and> oid = ''1.3.6.1.2.1.1.1.0'' then SnmpValue ''Cisco IOS Catalyst''
      else if community = ''public'' \<and> oid = ''1.3.6.1.2.1.1.5.0'' then SnmpValue (''sw-'' @ ip)
      else SnmpError)"

definition example_network :: network where
  "example_network =
     \<lparr>probe_connect = (\<lambda>ip. if ip \<in> set [''10.0.0.1'', ''10.0.0.2''] then Connected else Refused),
      probe_time = (\<lambda>ip. 12),
      scan_connect = (\<lambda>ip port. if port \<in> set [22, 161] then Connected else Refused),
      snmp_get = example_reply,
      int_of_str = (\<lambda>s. None),
      stored_credentials = Inl (CredentialError ''No password available''),
      login = (\<lambda>host device_type username password. False),
      show_version = (\<lambda>host device_type. None),
      logout = (\<lambda>host device_type. True),
      connect_failure = (\<lambda>host device_type. Some (OtherError ''Connection failed'')),
      send_command = (\<lambda>host command. Inl (OtherError ''closed'')),
      disconnect = (\<lambda>host. None),
      parse_version_output = (\<lambda>output vendor. ''Unknown''),
      parse_hostname = (\<lambda>output vendor. []),
      parse_model = (\<lambda>output vendor. ''Unknown''),
      parse_serial = (\<lambda>output vendor. []),
      count_interfaces = (\<lambda>output vendor. 0),
      clock_now = \<lparr>dt_year = 2024, dt_month = 5, dt_day = 17, dt_hour = 9, dt_minute = 30,
             dt_second = 0, dt_microsecond = 0\<rparr>\<rparr>"

definition example_device :: "string \<Rightarrow> DeviceInfo" where
  "example_device ip =
     (new_DeviceInfo ip ''SNMP'')
       \<lparr>di_hostname := ''sw-'' @ ip, di_vendor := ''Cisco'', di_model := ''Catalyst'',
        di_os_version := ''Cisco IOS Catalyst'', di_snmp_community := ''public'',
        di_last_seen := ''2024-05-17T09:30:00'', di_reachable := True, di_response_time := 12\<rparr>"

section \<open>Device discovery: address ranges\<close>

text \<open>
  The part of Python's \<^verbatim>\<open>ipaddress\<close> module that \<^verbatim>\<open>discover_network\<close> uses. IPv4 text is
  modelled as the module parses it: \<^verbatim>\<open>_parse_octet\<close> (one to three ASCII digits, no leading
  zero, at most 255), \<^verbatim>\<open>_ip_int_from_string\<close> (four octets), the prefix as a length from 0
  to 32 or as a dotted netmask or hostmask (\<^verbatim>\<open>_make_netmask\<close>), and a network built with
  \<^verbatim>\<open>strict=False\<close>, which clears the host bits. \<open>split_on\<close> is \<^verbatim>\<open>str.split(sep)\<close>.
\<close>

fun split_on :: "char \<Rightarrow> string \<Rightarrow> string list" where
  "split_on sep [] = [[]]"
| "split_on sep (c # s) =
     (if c = sep then [] # split_on sep s
      else (case split_on sep s of [] \<Rightarrow> [[c]] | part # parts \<Rightarrow> (c # part) # parts))"

definition is_ascii_digit :: "char \<Rightarrow> bool" where
  "is_ascii_digit c = (48 \<le> (of_char c :: nat) \<and> (of_char c :: nat) \<le> 57)"

definition int_of_digits :: "string \<Rightarrow> nat" where
  "int_of_digits s = foldl (\<lambda>acc c. 10 * acc + ((of_char c :: nat) - 48)) 0 s"

definition parse_octet :: "string \<Rightarrow> nat option" where
  "parse_octet octet_str =
     (if octet_str = [] then None
      else if \<not> list_all is_ascii_digit octet_str then None
      else if length octet_str > 3 then None
      else if octet_str \<noteq> ''0'' \<and> hd octet_str = CHR ''0'' then None
      else if int_of_digits octet_str > 255 then None
      else Some (int_of_digits octet_str))"

definition ipv4_int_from_string :: "string \<Rightarrow> nat option" where
  "ipv4_int_from_string ip_str =
     (if ip_str = [] then None
      else case map parse_octet (split_on CHR ''.'' ip_str) of
        [Some a, Some b, Some c, Some d] \<Rightarrow> Some (((a * 256 + b) * 256 + c) * 256 + d)
      | _ \<Rightarrow> None)"

definition ipv4_address :: "string \<Rightarrow> nat option" where
  "ipv4_address address =
     (if CHR ''/'' \<in> set address then None else ipv4_int_from_string address)"

definition prefix_from_prefix_string :: "nat \<Rightarrow> string \<Rightarrow> nat option" where
  "prefix_from_prefix_string max_prefixlen prefixlen_str =
     (if prefixlen_str = [] \<or> \<not> list_all is_ascii_digit prefixlen_str then None
      else if int_of_digits prefixlen_str \<le> max_prefixlen then Some (int_of_digits prefixlen_str)
      else None)"

fun count_righthand_zero_bits :: "nat \<Rightarrow> nat \<Rightarrow> nat" where
  "count_righthand_zero_bits number 0 = 0"
| "count_righthand_zero_bits number (Suc bits) =
     (if number mod 2 = 0 then Suc (count_righthand_zero_bits (number div 2) bits) else 0)"

definition prefix_from_ip_int :: "nat \<Rightarrow> nat option" where
  "prefix_from_ip_int ip_int =
     (let trailing_zeroes = count_righthand_zero_bits ip_int 32;
          prefixlen = 32 - trailing_zeroes;
          leading_ones = ip_int div 2 ^ trailing_zeroes;
          all_ones = 2 ^ prefixlen - 1
      in if leading_ones \<noteq> all_ones then None else Some prefixlen)"

definition prefix_from_ip_string :: "string \<Rightarrow> nat option" where
  "prefix_from_ip_string ip_str =
     (case ipv4_int_from_string ip_str of
        None \<Rightarrow> None
      | Some ip_int \<Rightarrow>
          (case prefix_from_ip_int ip_int of
             Some prefixlen \<Rightarrow> Some prefixlen
           | None \<Rightarrow> prefix_from_ip_int (2 ^ 32 - 1 - ip_int)))"

definition make_netmask :: "string \<Rightarrow> nat option" where
  "make_netmask arg =
     (case prefix_from_prefix_string 32 arg of
        Some prefixlen \<Rightarrow> Some prefixlen
      | None \<Rightarrow> prefix_from_ip_string arg)"

definition ipv4_network :: "string \<Rightarrow> (nat \<times> nat) option" where
  "ipv4_network address =
     (case split_on CHR ''/'' address of
        [addr_str] \<Rightarrow> map_option (\<lambda>a. (a, 32)) (ipv4_address addr_str)
      | [addr_str, mask_str] \<Rightarrow>
          (case ipv4_address addr_str of
             None \<Rightarrow> None
           | Some a \<Rightarrow>
               (case make_netmask mask_str of
                  None \<Rightarrow> None
                | Some prefixlen \<Rightarrow> Some (a - a mod 2 ^ (32 - prefixlen), prefixlen)))
      | _ \<Rightarrow> None)"

definition ipv4_str :: "nat \<Rightarrow> string" where
  "ipv4_str ip_int =
     str_nat (ip_int div 2 ^ 24 mod 256) @ ''.'' @ str_nat (ip_int div 2 ^ 16 mod 256) @ ''.'' @
     str_nat (ip_int div 2 ^ 8 mod 256) @ ''.'' @ str_nat (ip_int mod 256)"

text \<open>
  The module tries IPv4 first and IPv6 second. The IPv6 text syntax is a parameter: what
  \<^verbatim>\<open>IPv6Address\<close> and \<^verbatim>\<open>IPv6Network\<close> make of a string (an address of 128 bits, and a
  prefix length), and how an IPv6 address prints. An address is its version and its
  integer; the scope identifier an IPv6 address may carry is not modelled.
\<close>

record ipv6_library =
  ipv6_address :: "string \<Rightarrow> 128 word option"
  ipv6_network :: "string \<Rightarrow> (128 word \<times> nat) option"
  ipv6_str :: "nat \<Rightarrow> string"

datatype ip_address = IPv4Address nat | IPv6Address nat

datatype ip_network = IPv4Network nat nat | IPv6Network nat nat

definition ip_address_of :: "ipv6_library \<Rightarrow> string \<Rightarrow> ip_address option" where
  "ip_address_of lib address =
     (case ipv4_address address of
        Some a \<Rightarrow> Some (IPv4Address a)
      | None \<Rightarrow> map_option (\<lambda>w. IPv6Address (unat w)) (ipv6_address lib address))"

definition ip_network_of :: "ipv6_library \<Rightarrow> string \<Rightarrow> ip_network option" where
  "ip_network_of lib address =
     (case ipv4_network address of
        Some (a, prefixlen) \<Rightarrow> Some (IPv4Network a prefixlen)
      | None \<Rightarrow>
          (case ipv6_network lib address of
             None \<Rightarrow> None
           | Some (w, prefixlen) \<Rightarrow>
               if prefixlen \<le> 128 then
                 Some (IPv6Network (unat w - unat w mod 2 ^ (128 - prefixlen)) prefixlen)
               else None))"

definition address_str :: "ipv6_library \<Rightarrow> ip_address \<Rightarrow> string" where
  "address_str lib a = (case a of IPv4Address n \<Rightarrow> ipv4_str n | IPv6Address n \<Rightarrow> ipv6_str lib n)"

text \<open>
  \<^verbatim>\<open>hosts()\<close>: the addresses after the network address and, for IPv4, before the
  broadcast address; both addresses of a network of two, and the one address of a network
  of one.
\<close>

definition hosts :: "ip_network \<Rightarrow> ip_address list" where
  "hosts network =
     (case network of
        IPv4Network n prefixlen \<Rightarrow>
          (let broadcast = n + 2 ^ (32 - prefixlen) - 1
           in if prefixlen = 31 then map IPv4Address [n..<broadcast + 1]
              else if prefixlen = 32 then [IPv4Address n]
              else map IPv4Address [n + 1..<broadcast])
      | IPv6Network n prefixlen \<Rightarrow>
          (let broadcast = n + 2 ^ (128 - prefixlen) - 1
           in if prefixlen = 127 then map IPv6Address [n..<broadcast + 1]
              else if prefixlen = 128 then [IPv6Address n]
              else map IPv6Address [n + 1..<broadcast + 1]))"

text \<open>
  Comparing addresses of different versions raises \<^verbatim>\<open>TypeError\<close>, and adding 1 to the
  last address of a version raises \<^verbatim>\<open>AddressValueError\<close>, a \<^verbatim>\<open>ValueError\<close>.
\<close>

definition address_le :: "ip_address \<Rightarrow> ip_address \<Rightarrow> py_exception + bool" where
  "address_le a b =
     (case (a, b) of
        (IPv4Address m, IPv4Address n) \<Rightarrow> Inr (m \<le> n)
      | (IPv6Address m, IPv6Address n) \<Rightarrow> Inr (m \<le> n)
      | _ \<Rightarrow> Inl (TypeError ''not of the same version''))"

definition address_add1 :: "ip_address \<Rightarrow> py_exception + ip_address" where
  "address_add1 a =
     (case a of
        IPv4Address n \<Rightarrow>
          if n + 1 > 2 ^ 32 - 1 then Inl (ValueError ''not permitted as an IPv4 address'')
          else Inr (IPv4Address (n + 1))
      | IPv6Address n \<Rightarrow>
          if n + 1 > 2 ^ 128 - 1 then Inl (ValueError ''not permitted as an IPv6 address'')
          else Inr (IPv6Address (n + 1)))"

definition address_int :: "ip_address \<Rightarrow> nat" where
  "address_int a = (case a of IPv4Address n \<Rightarrow> n | IPv6Address n \<Rightarrow> n)"

text \<open>
  The range parsing of \<^verbatim>\<open>discover_network\<close>. \<open>range_loop\<close> is the \<^verbatim>\<open>while\<close> loop of the
  hyphenated form, \<open>expand_token\<close> the body of the \<^verbatim>\<open>try\<close> block for one token, returning
  the list \<^verbatim>\<open>all_ips\<close> as the token leaves it together with the exception raised, if any,
  and \<open>expand_ranges\<close> the \<^verbatim>\<open>for\<close> loop, which logs the token of a caught exception and
  goes on.
\<close>

function range_loop ::
  "ipv6_library \<Rightarrow> ip_address \<Rightarrow> ip_address \<Rightarrow> string list \<Rightarrow> string list \<times> py_exception option" where
  "range_loop lib current end all_ips =
     (case address_le current end of
        Inl e \<Rightarrow> (all_ips, Some e)
      | Inr False \<Rightarrow> (all_ips, None)
      | Inr True \<Rightarrow>
          (case address_add1 current of
             Inl e \<Rightarrow> (all_ips @ [address_str lib current], Some e)
           | Inr next \<Rightarrow> range_loop lib next end (all_ips @ [address_str lib current])))"
  by pat_completeness auto
termination
  by (relation "measure (\<lambda>(lib, current, end, all_ips). Suc (address_int end) - address_int current)")
    (auto simp: address_le_def address_add1_def address_int_def split: ip_address.splits if_splits)

declare range_loop.simps [simp del]

definition expand_token :: "ipv6_library \<Rightarrow> string \<Rightarrow> string list \<Rightarrow> string list \<times> py_exception option" where
  "expand_token lib ip_range all_ips =
     (if CHR ''/'' \<in> set ip_range then
        (case ip_network_of lib ip_range of
           None \<Rightarrow> (all_ips, Some (ValueError ''does not appear to be an IPv4 or IPv6 network''))
         | Some network \<Rightarrow> (all_ips @ map (address_str lib) (hosts network), None))
      else if CHR ''-'' \<in> set ip_range then
        (case split_on CHR ''-'' ip_range of
           [start_ip, end_ip] \<Rightarrow>
             (case ip_address_of lib (strip start_ip) of
                None \<Rightarrow> (all_ips, Some (ValueError ''does not appear to be an IPv4 or IPv6 address''))
              | Some start \<Rightarrow>
                  (case ip_address_of lib (strip end_ip) of
                     None \<Rightarrow>
                       (all_ips, Some (ValueError ''does not appear to be an IPv4 or IPv6 address''))
                   | Some end \<Rightarrow> range_loop lib start end all_ips))
         | _ \<Rightarrow> (all_ips, Some (ValueError ''too many values to unpack'')))
      else (all_ips @ [ip_range], None))"

fun expand_ranges ::
  "ipv6_library \<Rightarrow> string list \<Rightarrow> string list \<Rightarrow> string list \<Rightarrow> string list \<times> string list" where
  "expand_ranges lib [] all_ips errors = (all_ips, errors)"
| "expand_ranges lib (ip_range # rest) all_ips errors =
     (case expand_token lib ip_range all_ips of
        (all_ips', None) \<Rightarrow> expand_ranges lib rest all_ips' errors
      | (all_ips', Some e) \<Rightarrow> expand_ranges lib rest all_ips' (errors @ [ip_range]))"

text \<open>
  The expansion in the specification's words: a token with a slash yields the usable hosts
  of its network, a token with a hyphen every address from its start to its end, any other
  token itself, and a token that does not parse yields nothing. \<open>parse_failure\<close> says
  that a token of the first two forms does not parse.
\<close>

definition range_addresses :: "ip_address \<Rightarrow> ip_address \<Rightarrow> ip_address list" where
  "range_addresses start end =
     (case (start, end) of
        (IPv4Address m, IPv4Address n) \<Rightarrow> map IPv4Address [m..<Suc n]
      | (IPv6Address m, IPv6Address n) \<Rightarrow> map IPv6Address [m..<Suc n]
      | _ \<Rightarrow> [])"

definition token_addresses :: "ipv6_library \<Rightarrow> string \<Rightarrow> string list" where
  "token_addresses lib token =
     (if CHR ''/'' \<in> set token then
        (case ip_network_of lib token of
           None \<Rightarrow> []
         | Some network \<Rightarrow> map (address_str lib) (hosts network))
      else if CHR ''-'' \<in> set token then
        (case split_on CHR ''-'' token of
           [start_ip, end_ip] \<Rightarrow>
             (case (ip_address_of lib (strip start_ip), ip_address_of lib (strip end_ip)) of
                (Some start, Some end) \<Rightarrow> map (address_str lib) (range_addresses start end)
              | _ \<Rightarrow> [])
         | _ \<Rightarrow> [])
      else [token])"


definition address_ok :: "ip_address \<Rightarrow> bool" where
  "address_ok a = (case a of IPv4Address n \<Rightarrow> n < 2 ^ 32 | IPv6Address n \<Rightarrow> n < 2 ^ 128)"

text \<open>
  An IPv6 parameter that accepts nothing, for the examples.
\<close>

definition ipv4_only :: ipv6_library where
  "ipv4_only = \<lparr>ipv6_address = (\<lambda>s. None), ipv6_network = (\<lambda>s. None), ipv6_str = (\<lambda>n. [])\<rparr>"

section \<open>Device discovery: a run\<close>

text \<open>
  The state of a \<^verbatim>\<open>DeviceDiscovery\<close> object: the inventory loaded at start, the devices
  discovered so far, and the configured SNMP communities. \<open>addresses_to_scan\<close> is the list
  \<^verbatim>\<open>all_ips\<close> after the range parsing and the incremental filter. The worker pool runs
  \<open>discover_single_device\<close> on every address; the results are taken here in the order of
  the addresses (the pool hands them over as they complete, which changes the order of the
  keys of \<^verbatim>\<open>discovered\<close> at most).
\<close>

record DeviceDiscovery =
  dd_known_devices :: "(string, DeviceInfo) dict"
  dd_discovered_devices :: "(string, DeviceInfo) dict"
  dd_snmp_communities :: "string list"

definition addresses_to_scan :: "ipv6_library \<Rightarrow> DeviceDiscovery \<Rightarrow> string list \<Rightarrow> bool \<Rightarrow> string list" where
  "addresses_to_scan lib self ip_ranges incremental =
     (let all_ips = fst (expand_ranges lib ip_ranges [] [])
      in if incremental then filter (\<lambda>ip. dict_get (dd_known_devices self) ip = None) all_ips
         else all_ips)"

fun collect_results :: "network \<Rightarrow> string list \<Rightarrow> string list \<Rightarrow> (string, DeviceInfo) dict \<Rightarrow> (string, DeviceInfo) dict" where
  "collect_results net communities [] discovered = discovered"
| "collect_results net communities (ip # rest) discovered =
     collect_results net communities rest
       (case discover_single_device net communities ip of
          None \<Rightarrow> discovered
        | Some device_info \<Rightarrow> dict_set discovered ip device_info)"

definition discover_network ::
  "ipv6_library \<Rightarrow> network \<Rightarrow> DeviceDiscovery \<Rightarrow> string list \<Rightarrow> bool \<Rightarrow>
   (string, DeviceInfo) dict \<times> DeviceDiscovery" where
  "discover_network lib net self ip_ranges incremental =
     (let all_ips = addresses_to_scan lib self ip_ranges incremental;
          discovered = collect_results net (dd_snmp_communities self) all_ips []
      in (discovered,
          self\<lparr>dd_discovered_devices := dict_update (dd_discovered_devices self) discovered\<rparr>))"

section \<open>Device discovery: inventory and summary\<close>

text \<open>
  \<^verbatim>\<open>save_inventory\<close>. The merged dictionary \<^verbatim>\<open>{**known_devices, **discovered_devices}\<close>
  keeps the keys of the loaded inventory first and takes the value of a discovered device
  where an address is in both. The export data hold the list of its values. The formats
  are written through \<open>format_output\<close>, an exception of which is logged and skipped; the
  main inventory file is then written as JSON, after \<^verbatim>\<open>os.makedirs\<close> of its directory,
  which raises for the empty directory name of a bare file name, so that nothing is written
  then. \<open>json_dump_plain\<close> is \<^verbatim>\<open>json.dump\<close> without a default conversion, \<open>dirname\<close>
  is \<^verbatim>\<open>os.path.dirname\<close>, and \<open>stamp\<close> is the formatted time in the file names, read
  once for all formats.
\<close>

record inventory_metadata =
  md_generated_at :: string
  md_total_devices :: nat
  md_discovery_method :: string
  md_version :: string

record export_data =
  ex_metadata :: inventory_metadata
  ex_devices :: "DeviceInfo list"

definition all_devices :: "DeviceDiscovery \<Rightarrow> (string, DeviceInfo) dict" where
  "all_devices self = dict_update (dd_known_devices self) (dd_discovered_devices self)"

definition export_data_of :: "string \<Rightarrow> DeviceDiscovery \<Rightarrow> export_data" where
  "export_data_of generated_at self =
     (let device_list = dict_values (all_devices self)
      in \<lparr>ex_metadata = \<lparr>md_generated_at = generated_at, md_total_devices = length device_list,
                         md_discovery_method = ''network_discovery'', md_version = ''1.0''\<rparr>,
          ex_devices = device_list\<rparr>)"

fun save_formats ::
  "export_data renderers \<Rightarrow> string \<Rightarrow> export_data \<Rightarrow> string list \<Rightarrow> filesystem \<Rightarrow> string list \<Rightarrow>
   string list \<times> filesystem" where
  "save_formats R stamp data [] fs output_files = (output_files, fs)"
| "save_formats R stamp data (fmt # rest) fs output_files =
     (case format_output R stamp data fmt (Some (''inventory_'' @ stamp)) ''output'' fs of
        (Inl e, fs') \<Rightarrow> save_formats R stamp data rest fs' output_files
      | (Inr output_file, fs') \<Rightarrow> save_formats R stamp data rest fs' (output_files @ [output_file]))"

definition dirname :: "string \<Rightarrow> string" where
  "dirname p =
     (let head = take (length p - length (path_name p)) p
      in if head \<noteq> [] \<and> \<not> list_all (\<lambda>c. c = CHR ''/'') head
         then rev (dropWhile (\<lambda>c. c = CHR ''/'') (rev head))
         else head)"

definition save_inventory ::
  "export_data renderers \<Rightarrow> (export_data \<Rightarrow> string \<times> py_exception option) \<Rightarrow> string \<Rightarrow> string \<Rightarrow>
   DeviceDiscovery \<Rightarrow> string list option \<Rightarrow> string \<Rightarrow> filesystem \<Rightarrow> string list \<times> filesystem" where
  "save_inventory R json_dump_plain generated_at stamp self output_formats inventory_file fs =
     (let output_formats = (case output_formats of
                              None \<Rightarrow> [''json'', ''csv'', ''html''] | Some formats \<Rightarrow> formats);
          data = export_data_of generated_at self
      in case save_formats R stamp data output_formats fs [] of
           (output_files, fs1) \<Rightarrow>
             if dirname inventory_file = [] then (output_files, fs1)
             else
               (output_files,
                snd (write_then_fail (json_dump_plain data) inventory_file
                       (mkdir_exist_ok fs1 (dirname inventory_file)))))"

text \<open>
  \<^verbatim>\<open>generate_summary_report\<close>: the counts over the merged dictionary, and
  \<open>newly_discovered\<close>, which is the size of \<^verbatim>\<open>discovered_devices\<close>.
\<close>

fun count_by :: "(DeviceInfo \<Rightarrow> string) \<Rightarrow> DeviceInfo list \<Rightarrow> (string, nat) dict \<Rightarrow> (string, nat) dict" where
  "count_by key [] counts = counts"
| "count_by key (device # rest) counts =
     count_by key rest
       (let k = (if key device = [] then ''Unknown'' else key device)
        in dict_set counts k (dict_get_default counts k 0 + 1))"

record summary =
  sm_total_devices :: nat
  sm_reachable_devices :: nat
  sm_unreachable_devices :: int
  sm_vendor_distribution :: "(string, nat) dict"
  sm_role_distribution :: "(string, nat) dict"
  sm_discovery_timestamp :: string
  sm_newly_discovered :: nat

definition generate_summary_report :: "string \<Rightarrow> DeviceDiscovery \<Rightarrow> summary" where
  "generate_summary_report timestamp self =
     (let devices = dict_values (all_devices self);
          total_devices = length devices;
          reachable_count = length (filter di_reachable devices)
      in \<lparr>sm_total_devices = total_devices,
          sm_reachable_devices = reachable_count,
          sm_unreachable_devices = int total_devices - int reachable_count,
          sm_vendor_distribution = count_by di_vendor devices [],
          sm_role_distribution = count_by di_role devices [],
          sm_discovery_timestamp = timestamp,
          sm_newly_discovered = length (dd_discovered_devices self)\<rparr>)"

text \<open>
  The scenario of the specification: the loaded inventory knows the address
  \<open>10.0.0.1\<close>, and a run over the range \<open>10.0.0.1-10.0.0.2\<close> in the sample network
  discovers that address again and \<open>10.0.0.2\<close> for the first time.
\<close>

definition old_device :: DeviceInfo where
  "old_device =
     (new_DeviceInfo ''10.0.0.1'' ''SSH'')
       \<lparr>di_hostname := ''old-sw'', di_vendor := ''cisco'', di_last_seen := ''2023-01-01T00:00:00'',
        di_reachable := True\<rparr>"

definition example_state :: DeviceDiscovery where
  "example_state =
     \<lparr>dd_known_devices = [(''10.0.0.1'', old_device)], dd_discovered_devices = [],
      dd_snmp_communities = [''public'', ''private'']\<rparr>"

definition example_state_after :: DeviceDiscovery where
  "example_state_after =
     snd (discover_network ipv4_only example_network example_state [''10.0.0.1-10.0.0.2''] False)"

definition example_dump :: "export_data \<Rightarrow> string \<times> py_exception option" where
  "example_dump data = (concat (map (\<lambda>d. di_ip_address d @ '';'') (ex_devices data)), None)"

definition example_export_renderers :: "export_data renderers" where
  "example_export_renderers =
     \<lparr>json_dump = example_dump, csv_table = (\<lambda>d. Inl (OtherError ''pandas'')),
      html_page = (\<lambda>d. Inl (OtherError ''jinja2'')), excel_book = example_dump\<rparr>"

section \<open>Properties\<close>

subsection \<open>Uptime formatting\<close>

lemma str_int_nat: "str_int (int n) = str_nat n"
  by (simp add: str_int_def)

lemma format_uptime_nat:
  "format_uptime (int n) =
     (let seconds = n div 100;
          days = seconds div 86400;
          hours = (seconds mod 86400) div 3600;
          minutes = (seconds mod 3600) div 60
      in if days > 0 then str_nat days @ ''d '' @ str_nat hours @ ''h '' @ str_nat minutes @ ''m''
         else if hours > 0 then str_nat hours @ ''h '' @ str_nat minutes @ ''m''
         else str_nat minutes @ ''m'')"
proof -
  have s: "int n div 100 = int (n div 100)"
    by (simp add: zdiv_int)
  have d: "int (n div 100) div 86400 = int (n div 100 div 86400)"
    by (simp add: zdiv_int)
  have h: "int (n div 100) mod 86400 div 3600 = int (n div 100 mod 86400 div 3600)"
    by (simp add: zdiv_int zmod_int)
  have m: "int (n div 100) mod 3600 div 60 = int (n div 100 mod 3600 div 60)"
    by (simp add: zdiv_int zmod_int)
  show ?thesis
    unfolding format_uptime_def Let_def s d h m str_int_nat
    by simp
qed

lemma format_uptime_examples:
  "format_uptime 8640000 = ''1d 0h 0m''"
  "format_uptime 360000 = ''1h 0m''"
  "format_uptime 6000 = ''1m''"
  by code_simp+

text \<open>
  Claim C6. For every non-negative tick count \<open>n\<close>, \<open>format_uptime\<close> computes
  seconds = ticks div 100, days = seconds div 86400, hours = (seconds mod 86400) div 3600 and
  minutes = (seconds mod 3600) div 60, and returns \<open><d>d <h>h <m>m\<close> when days > 0,
  \<open><h>h <m>m\<close> when days = 0 and hours > 0, and \<open><m>m\<close> otherwise; 8,640,000 ticks give
  \<open>1d 0h 0m\<close>, 360,000 ticks give \<open>1h 0m\<close> and 6,000 ticks give \<open>1m\<close>.
  The non-negative tick counts are the naturals; the numbers are printed in decimal.
\<close>

theorem format_uptime_spec:
  "format_uptime (int n) =
     (let seconds = n div 100;
          days = seconds div 86400;
          hours = (seconds mod 86400) div 3600;
          minutes = (seconds mod 3600) div 60
      in if days > 0 then str_nat days @ ''d '' @ str_nat hours @ ''h '' @ str_nat minutes @ ''m''
         else if hours > 0 then str_nat hours @ ''h '' @ str_nat minutes @ ''m''
         else str_nat minutes @ ''m'')
   \<and> format_uptime 8640000 = ''1d 0h 0m''
   \<and> format_uptime 360000 = ''1h 0m''
   \<and> format_uptime 6000 = ''1m''"
  using format_uptime_nat [of n] format_uptime_examples by simp

subsection \<open>Overall health status\<close>

lemma count_metrics_eq:
  "count_metrics ms (c, w, t) =
     (c + length (filter (\<lambda>m. hm_status m = CRITICAL) ms),
      w + length (filter (\<lambda>m. hm_status m = WARNING) ms),
      t + length ms)"
  by (induction ms arbitrary: c w t) auto

lemma set_all_metrics: "set (all_metrics health) = metric_union health"
  by (auto simp: all_metrics_def metric_union_def split: option.splits)

lemma filter_length_pos: "0 < length (filter P xs) \<longleftrightarrow> (\<exists>x\<in>set xs. P x)"
  by (induction xs) auto

text \<open>
  Claim C1. For every DeviceHealth record, \<open>calculate_overall_status\<close> returns CRITICAL if the
  device is unreachable; otherwise, over the union of its cpu, memory, temperature-sensor,
  power-supply, fan, interface-error and interface-utilization metrics, it returns CRITICAL if
  some metric's status is CRITICAL, else WARNING if some metric's status is WARNING, else GOOD
  if at least one metric exists, else UNKNOWN.
\<close>

theorem calculate_overall_status_spec:
  "calculate_overall_status health =
     (if \<not> dh_reachable health then CRITICAL
      else if \<exists>m \<in> metric_union health. hm_status m = CRITICAL then CRITICAL
      else if \<exists>m \<in> metric_union health. hm_status m = WARNING then WARNING
      else if metric_union health \<noteq> {} then GOOD
      else UNKNOWN)"
proof -
  let ?ms = "all_metrics health"
  have total: "length ?ms = 0 \<longleftrightarrow> metric_union health = {}"
    using set_all_metrics [of health] by auto
  have crit: "0 < length (filter (\<lambda>m. hm_status m = CRITICAL) ?ms)
      \<longleftrightarrow> (\<exists>m \<in> metric_union health. hm_status m = CRITICAL)"
    by (simp only: filter_length_pos set_all_metrics)
  have warn: "0 < length (filter (\<lambda>m. hm_status m = WARNING) ?ms)
      \<longleftrightarrow> (\<exists>m \<in> metric_union health. hm_status m = WARNING)"
    by (simp only: filter_length_pos set_all_metrics)
  show ?thesis
    unfolding calculate_overall_status_def count_metrics_eq
    using total crit warn by auto
qed

text \<open>
  The specification's examples: a reachable device with one GOOD and one CRITICAL metric is
  CRITICAL, a reachable device without metrics is UNKNOWN, and an unreachable device is
  CRITICAL whatever its metrics are; also one WARNING, and only GOOD.
\<close>

theorem calculate_overall_status_witness:
  "calculate_overall_status
     (example_health True (Some (example_metric GOOD)) [example_metric CRITICAL]) = CRITICAL
   \<and> calculate_overall_status (example_health True None []) = UNKNOWN
   \<and> calculate_overall_status (example_health False (Some (example_metric GOOD)) []) = CRITICAL
   \<and> calculate_overall_status
     (example_health True (Some (example_metric GOOD)) [example_metric WARNING]) = WARNING
   \<and> calculate_overall_status (example_health True (Some (example_metric GOOD)) []) = GOOD"
  using calculate_overall_status_spec
    [of "example_health True (Some (example_metric GOOD)) [example_metric CRITICAL]"]
    calculate_overall_status_spec [of "example_health True None []"]
    calculate_overall_status_spec [of "example_health False (Some (example_metric GOOD)) []"]
    calculate_overall_status_spec
    [of "example_health True (Some (example_metric GOOD)) [example_metric WARNING]"]
    calculate_overall_status_spec [of "example_health True (Some (example_metric GOOD)) []"]
  by (simp add: example_health_def example_metric_def metric_union_def)

subsection \<open>Suite runner\<close>

lemma dict_set_fresh: "k \<notin> fst ` set d \<Longrightarrow> dict_set d k v = d @ [(k, v)]"
  by (induction d) auto

lemma scripts_to_run_distinct: "distinct (scripts_to_run args)"
  by (simp add: scripts_to_run_def)

lemma scripts_to_run_known: "set (scripts_to_run args) \<subseteq> set script_mapping"
  by (auto simp: scripts_to_run_def script_mapping_def)

lemma run_script_status:
  "map_sum id sr_status (run_script n outcome t) =
     (case outcome of
        Returns \<Rightarrow> Inr ''success''
      | RaisesSystemExit c \<Rightarrow>
          Inr (if c = NoCode \<or> c = IntCode 0 then ''success''
               else if c = IntCode 1 then ''warning''
               else ''error'')
      | RaisesException msg \<Rightarrow> Inr ''error''
      | RaisesKeyboardInterrupt \<Rightarrow> Inl KeyboardInterrupt)"
  by (cases outcome) (auto simp: run_script_def)

lemma run_script_error_message:
  "run_script n (RaisesException msg) t = Inr r \<Longrightarrow> sr_error r = Some msg"
  by (auto simp: run_script_def)

lemma run_script_Inr:
  "outcome \<noteq> RaisesKeyboardInterrupt \<Longrightarrow> \<exists>r. run_script n outcome t = Inr r"
  by (cases outcome) (auto simp: run_script_def)

lemma run_scripts_all:
  "distinct scripts \<Longrightarrow> set scripts \<subseteq> set script_mapping \<Longrightarrow>
   set scripts \<inter> fst ` set acc = {} \<Longrightarrow>
   \<forall>s \<in> set scripts. main_of s \<noteq> RaisesKeyboardInterrupt \<Longrightarrow>
   \<exists>rs. run_scripts main_of clock scripts acc = Inr (acc @ rs) \<and>
        map (\<lambda>(s, r). Inr (sr_status r)) rs = map (run_status main_of clock) scripts"
proof (induction scripts arbitrary: acc)
  case Nil
  then show ?case by simp
next
  case (Cons s rest)
  from Cons.prems obtain r where r: "run_script s (main_of s) (clock s) = Inr r"
    using run_script_Inr [of "main_of s" s "clock s"] by auto
  have st: "run_status main_of clock s = Inr (sr_status r)"
    by (simp add: run_status_def r)
  have fresh: "s \<notin> fst ` set acc"
    using Cons.prems by auto
  have "\<exists>rs. run_scripts main_of clock rest (acc @ [(s, r)]) = Inr ((acc @ [(s, r)]) @ rs) \<and>
        map (\<lambda>(s, r). Inr (sr_status r)) rs = map (run_status main_of clock) rest"
    using Cons.prems by (intro Cons.IH) auto
  then obtain rs where
    rs: "run_scripts main_of clock rest (acc @ [(s, r)]) = Inr ((acc @ [(s, r)]) @ rs)"
      "map (\<lambda>(s, r). Inr (sr_status r)) rs = map (run_status main_of clock) rest"
    by blast
  have "run_scripts main_of clock (s # rest) acc = Inr (acc @ ((s, r) # rs))"
    using Cons.prems r rs fresh by (simp add: dict_set_fresh)
  moreover have "map (\<lambda>(s, r). Inr (sr_status r)) ((s, r) # rs) =
      map (run_status main_of clock) (s # rest)"
    using st rs by simp
  ultimately show ?case by blast
qed

lemma count_status_map:
  "count_status st rs =
     length (filter (\<lambda>x. x = Inr st) (map (\<lambda>(s, r). Inr (sr_status r) :: propagated + string) rs))"
  by (induction rs) (auto simp: count_status_def dict_values_def)

lemma count_status_pos:
  assumes "map (\<lambda>(s, r). Inr (sr_status r) :: propagated + string) rs = map f scripts"
  shows "0 < count_status st rs \<longleftrightarrow> (\<exists>s \<in> set scripts. f s = Inr st)"
proof -
  have "count_status st rs = length (filter (\<lambda>x. x = Inr st) (map f scripts))"
    by (simp only: count_status_map assms)
  also have "0 < \<dots> \<longleftrightarrow> (\<exists>x \<in> set (map f scripts). x = Inr st)"
    by (rule filter_length_pos)
  finally show ?thesis by (auto simp: image_iff) metis
qed

lemma main_exit_code:
  assumes "scripts_to_run args \<noteq> []" and init_ok
    and "\<forall>s \<in> set (scripts_to_run args). main_of s \<noteq> RaisesKeyboardInterrupt"
  shows "main args init_ok main_of clock =
     (if \<exists>s \<in> set (scripts_to_run args). run_status main_of clock s = Inr ''error'' then 2
      else if \<exists>s \<in> set (scripts_to_run args). run_status main_of clock s = Inr ''warning'' then 1
      else 0)"
proof -
  obtain rs where rs: "run_scripts main_of clock (scripts_to_run args) [] = Inr ([] @ rs)"
    "map (\<lambda>(s, r). Inr (sr_status r)) rs = map (run_status main_of clock) (scripts_to_run args)"
    using run_scripts_all [OF scripts_to_run_distinct scripts_to_run_known,
        of args "[]" main_of clock] assms(3)
    by auto
  show ?thesis
    using assms(1,2) rs(1) count_status_pos [OF rs(2)]
    by (simp add: main_def run_monitoring_suite_def Let_def)
qed

text \<open>
  Claim C3. For every selected tool, the runner classifies its run as success if the tool's
  entry function returns normally or exits with code 0 or no code, as warning if it exits
  with code 1, and as error if it exits with any other code or raises an exception (whose
  message is kept); the suite's process exit code is then 2 if some tool's result is error,
  else 1 if some tool's result is warning, else 0. The exit code is that of a run which
  selects at least one tool, constructs the suite and is not interrupted from the keyboard.
\<close>

theorem suite_runner_spec:
  "map_sum id sr_status (run_script n outcome t) =
     (case outcome of
        Returns \<Rightarrow> Inr ''success''
      | RaisesSystemExit c \<Rightarrow>
          Inr (if c = NoCode \<or> c = IntCode 0 then ''success''
               else if c = IntCode 1 then ''warning''
               else ''error'')
      | RaisesException msg \<Rightarrow> Inr ''error''
      | RaisesKeyboardInterrupt \<Rightarrow> Inl KeyboardInterrupt)
   \<and> (\<forall>msg r. run_script n (RaisesException msg) t = Inr r \<longrightarrow> sr_error r = Some msg)
   \<and> (scripts_to_run args \<noteq> [] \<and> init_ok \<and>
        (\<forall>s \<in> set (scripts_to_run args). main_of s \<noteq> RaisesKeyboardInterrupt) \<longrightarrow>
      main args init_ok main_of clock =
        (if \<exists>s \<in> set (scripts_to_run args). run_status main_of clock s = Inr ''error'' then 2
         else if \<exists>s \<in> set (scripts_to_run args). run_status main_of clock s = Inr ''warning''
           then 1
         else 0))"
  using run_script_status [of n outcome t] run_script_error_message [of n _ t]
    main_exit_code [of args init_ok main_of clock]
  by blast

theorem suite_runner_witness:
  "scripts_to_run example_args = [''discovery'', ''health'']
   \<and> run_status example_tools (\<lambda>s. 0) ''discovery'' = Inr ''success''
   \<and> run_status example_tools (\<lambda>s. 0) ''health'' = Inr ''warning''
   \<and> main example_args True example_tools (\<lambda>s. 0) = 1"
  using suite_runner_spec [of "''health''" "RaisesSystemExit (IntCode 1)" 0 example_args True
      example_tools "\<lambda>s. 0"]
  by (simp add: example_args_def example_tools_def scripts_to_run_def run_status_def
      run_script_def)

subsection \<open>Configuration loading\<close>

lemma load_config_cases:
  "(fs p = None \<longrightarrow>
      load_config y j fs p = Inl (FileNotFoundError (''Configuration file not found: '' @ p)))
   \<and> (is_ValueError (load_config y j fs p) \<longleftrightarrow>
        (\<exists>text. fs p = Some (File text)) \<and> path_suffix p \<notin> {''.yaml'', ''.yml'', ''.json''})"
  by (auto simp: load_config_def is_ValueError_def split: option.splits fs_entry.splits)

text \<open>
  Claim C10. For every path that does not exist, \<open>load_config\<close> fails with
  \<open>FileNotFoundError\<close> (NotFound) whatever the path's extension is, since the existence
  check precedes the extension check: a missing file with an unsupported extension such as
  \<open>.txt\<close> yields NotFound, not InvalidInput. The \<open>ValueError\<close> (InvalidInput) of
  \<open>load_config\<close> is raised only for a path that exists and whose extension is none of
  \<open>.yaml\<close>, \<open>.yml\<close>, \<open>.json\<close>, and it is raised for every regular file with such an extension.
\<close>

theorem load_config_missing_file:
  "(fs p = None \<longrightarrow>
      load_config y j fs p = Inl (FileNotFoundError (''Configuration file not found: '' @ p))
      \<and> \<not> is_ValueError (load_config y j fs p))
   \<and> (is_ValueError (load_config y j fs p) \<longrightarrow>
        fs p \<noteq> None \<and> path_suffix p \<notin> {''.yaml'', ''.yml'', ''.json''})
   \<and> ((\<exists>text. fs p = Some (File text)) \<and> path_suffix p \<notin> {''.yaml'', ''.yml'', ''.json''} \<longrightarrow>
        is_ValueError (load_config y j fs p))"
  using load_config_cases [of fs p y j] by auto

theorem load_config_missing_file_witness:
  "example_fs ''missing.txt'' = None
   \<and> path_suffix ''missing.txt'' = ''.txt''
   \<and> load_config Some Some example_fs ''missing.txt'' =
       Inl (FileNotFoundError ''Configuration file not found: missing.txt'')
   \<and> example_fs ''notes.txt'' = Some (File ''hello'')
   \<and> is_ValueError (load_config Some Some example_fs ''notes.txt'')
   \<and> load_config Some Some example_fs ''config/config.yaml'' = Inr ''logging: {}''"
  using load_config_missing_file [of example_fs "''missing.txt''" Some Some]
    load_config_missing_file [of example_fs "''notes.txt''" Some Some]
  by (simp add: example_fs_def load_config_def is_ValueError_def path_suffix_def path_name_def)

subsection \<open>Output formatters\<close>













subsection \<open>Retry wrapper\<close>







subsection \<open>Credential manager\<close>



lemma resolve_password_cache:
  "resolve_password env u p st = (r, st') \<Longrightarrow> credentials_cache st' = credentials_cache st"
  by (auto simp: resolve_password_def read_answer_def Let_def split: if_splits list.splits)



lemma get_credentials_uncached:
  assumes "resolve_username env username p st = (Inr u, st1)"
    and "dict_get (credentials_cache st1) u = None"
    and "resolve_password env u p st1 = (Inr password, st2)"
  shows "get_credentials env username p st =
     (if truthy password then
        (Inr \<lparr>cr_username = u, cr_password = the password,
              cr_secret = (if truthy (env_or env ''ENABLE_PASSWORD'' ''DEFAULT_SECRET'')
                           then env_or env ''ENABLE_PASSWORD'' ''DEFAULT_SECRET'' else None)\<rparr>,
         st2\<lparr>credentials_cache := dict_set (credentials_cache st2) u
              \<lparr>cr_username = u, cr_password = the password,
               cr_secret = (if truthy (env_or env ''ENABLE_PASSWORD'' ''DEFAULT_SECRET'')
                            then env_or env ''ENABLE_PASSWORD'' ''DEFAULT_SECRET'' else None)\<rparr>\<rparr>)
      else (Inl (CredentialError ''No password available''), st2))"
  using assms by (simp add: get_credentials_def Let_def)






lemma example_second_call: "get_credentials example_env None False admin_session = (Inr admin_credentials, admin_session)"
  by (simp add: get_credentials_def resolve_username_def env_or_def
      example_env_def truthy_def Let_def dict_get_def admin_session_def)

lemma example_no_password: "get_credentials example_env (Some ''oper'') False example_session = (Inl (CredentialError ''No password available''), example_session)"
  by (simp add: get_credentials_def resolve_username_def resolve_password_def env_or_def
      example_env_def example_session_def truthy_def read_answer_def Let_def dict_get_def)



subsection \<open>Discovery of one address\<close>

lemma snmp_assign_method:
  "snmp_assign net name val d = Inr d' \<Longrightarrow> di_discovery_method d' = di_discovery_method d"
  by (auto simp: snmp_assign_def split: if_splits prod.splits option.splits)

lemma snmp_query_all_method:
  "snmp_query_all net ip community os d = Inr d' \<Longrightarrow> di_discovery_method d' = di_discovery_method d"
proof (induction os arbitrary: d)
  case Nil
  then show ?case by simp
next
  case (Cons a os)
  obtain name oid where a: "a = (name, oid)" by (cases a)
  show ?case
  proof (cases "snmp_get net ip community oid")
    case (SnmpValue val)
    with Cons.prems a obtain d1 where d1: "snmp_assign net name val d = Inr d1"
      "snmp_query_all net ip community os d1 = Inr d'"
      by (auto split: sum.splits)
    then show ?thesis
      using Cons.IH [OF d1(2)] snmp_assign_method [OF d1(1)] by simp
  next
    case SnmpError
    with Cons a show ?thesis by simp
  next
    case SnmpRaises
    with Cons.prems a show ?thesis by simp
  qed
qed

lemma snmp_discovery_result:
  "snmp_communities_loop net ip cs = Some d \<Longrightarrow>
   di_reachable d \<and> di_discovery_method d = ''SNMP''"
proof (induction cs)
  case Nil
  then show ?case by simp
next
  case (Cons c cs)
  show ?case
  proof (cases "snmp_query_all net ip c oids ((new_DeviceInfo ip ''SNMP'')\<lparr>di_snmp_community := c\<rparr>)")
    case (Inl e)
    with Cons show ?thesis by simp
  next
    case (Inr d0)
    have m: "di_discovery_method d0 = ''SNMP''"
      using snmp_query_all_method [OF Inr] by (simp add: new_DeviceInfo_def)
    show ?thesis
      using Cons Inr m by (auto split: if_splits)
  qed
qed

lemma ssh_collect_result:
  "ssh_collect net ip device_type capabilities = Inr d \<Longrightarrow>
   di_reachable d \<and> di_discovery_method d = ''SSH''"
  by (auto simp: ssh_collect_def ssh_version_step_def ssh_interfaces_step_def Let_def
      new_DeviceInfo_def split: option.splits sum.splits)

lemma ssh_discovery_result:
  "ssh_discovery net ip = Some d \<Longrightarrow> di_reachable d \<and> di_discovery_method d = ''SSH''"
  unfolding ssh_discovery_def
  by (auto split: sum.splits prod.splits if_splits option.splits dest: ssh_collect_result)

lemma isoformat_nonempty: "isoformat dt \<noteq> []"
  by (simp add: isoformat_def)

lemma enrich_fields:
  "di_reachable (enrich net rt ports d) = di_reachable d"
  "di_discovery_method (enrich net rt ports d) = di_discovery_method d"
  "di_last_seen (enrich net rt ports d) = isoformat (clock_now net)"
  "di_response_time (enrich net rt ports d) = rt"
  by (simp_all add: enrich_def)

lemma discover_single_device_result:
  assumes "discover_single_device net cs ip = Some d"
  shows "di_reachable d \<and> di_last_seen d = isoformat (clock_now net) \<and>
         di_response_time d = probe_time net ip \<and>
         (di_discovery_method d = ''SNMP'' \<or> di_discovery_method d = ''SSH'') \<and>
         probe_connect net ip = Connected"
proof -
  have c: "probe_connect net ip = Connected"
    using assms
    by (cases "probe_connect net ip") (simp_all add: discover_single_device_def is_host_reachable_def)
  then have r: "is_host_reachable net ip = (True, probe_time net ip)"
    by (simp add: is_host_reachable_def)
  let ?ports = "scan_ports net ip"
  let ?snmp = "(if dict_get_default ?ports 161 False then snmp_discovery net cs ip else None)"
  let ?ssh = "(if dict_get_default ?ports 22 False then ssh_discovery net ip else None)"
  show ?thesis
  proof (cases ?snmp)
    case (Some d0)
    then have "snmp_discovery net cs ip = Some d0" by (simp split: if_splits)
    then have d0: "di_reachable d0 \<and> di_discovery_method d0 = ''SNMP''"
      using snmp_discovery_result by (simp add: snmp_discovery_def)
    have "d = enrich net (probe_time net ip) ?ports d0"
      using assms r Some by (simp add: discover_single_device_def Let_def)
    then show ?thesis using d0 c by (simp add: enrich_fields)
  next
    case None
    show ?thesis
    proof (cases ?ssh)
      case (Some d0)
      then have "ssh_discovery net ip = Some d0" by (simp split: if_splits)
      then have d0: "di_reachable d0 \<and> di_discovery_method d0 = ''SSH''"
        using ssh_discovery_result by simp
      have "d = enrich net (probe_time net ip) ?ports d0"
        using assms r None Some by (simp add: discover_single_device_def Let_def)
      then show ?thesis using d0 c by (simp add: enrich_fields)
    next
      case None2: None
      show ?thesis
        using assms r None None2 by (simp add: discover_single_device_def Let_def)
    qed
  qed
qed

lemma discover_unreachable:
  "probe_connect net ip \<noteq> Connected \<Longrightarrow> discover_single_device net cs ip = None"
  by (cases "probe_connect net ip") (simp_all add: discover_single_device_def is_host_reachable_def)

lemma example_now: "isoformat (clock_now example_network) = ''2024-05-17T09:30:00''"
  by code_simp

lemma example_lower: "lower ''Cisco IOS Catalyst'' = ''cisco ios catalyst''"
  by code_simp

lemma example_description: "parse_snmp_description ''Cisco IOS Catalyst'' = (''Cisco'', ''Catalyst'')"
  by (simp add: parse_snmp_description_def example_lower)

lemma example_ports: "scan_ports example_network ip = [(22, True), (23, False), (80, False), (443, False), (161, True), (830, False)]"
  by (simp add: scan_ports_def common_ports_def example_network_def)

lemma example_reachable: "is_host_reachable example_network ip = (ip \<in> set [''10.0.0.1'', ''10.0.0.2''], 12)"
  by (simp add: is_host_reachable_def example_network_def)

lemma example_snmp: "snmp_discovery example_network [''public'', ''private''] ip =
   Some ((new_DeviceInfo ip ''SNMP'')
       \<lparr>di_hostname := ''sw-'' @ ip, di_vendor := ''Cisco'', di_model := ''Catalyst'',
        di_os_version := ''Cisco IOS Catalyst'', di_snmp_community := ''public'',
        di_reachable := True\<rparr>)"
proof -
  have g: "snmp_get example_network = example_reply"
    by (simp add: example_network_def)
  show ?thesis
    by (simp add: snmp_discovery_def oids_def g example_reply_def snmp_assign_def example_description
        new_DeviceInfo_def)
qed

lemma example_discovery: "discover_single_device example_network [''public'', ''private''] ip =
   (if ip \<in> set [''10.0.0.1'', ''10.0.0.2''] then Some (example_device ip) else None)"
  by (simp add: discover_single_device_def example_reachable example_ports dict_get_default_def dict_get_def
      example_snmp enrich_def example_now example_device_def new_DeviceInfo_def)

text \<open>
  Claim C9. Every DeviceInfo record that \<open>discover_single_device\<close> returns has
  \<open>reachable\<close> true, a non-empty \<open>last_seen\<close> timestamp (the current time in ISO format),
  the response time measured by the probe, and the discovery method \<open>SNMP\<close> or \<open>SSH\<close>;
  an address whose TCP probe of port 22 fails yields no record.
\<close>

theorem discover_single_device_invariant:
  "(discover_single_device net snmp_communities ip = Some d \<longrightarrow>
      di_reachable d
      \<and> di_last_seen d \<noteq> [] \<and> di_last_seen d = isoformat (clock_now net)
      \<and> di_response_time d = snd (is_host_reachable net ip)
      \<and> (di_discovery_method d = ''SNMP'' \<or> di_discovery_method d = ''SSH''))
   \<and> (probe_connect net ip \<noteq> Connected \<longrightarrow>
        fst (is_host_reachable net ip) = False
        \<and> discover_single_device net snmp_communities ip = None)"
proof -
  have "discover_single_device net snmp_communities ip = Some d \<Longrightarrow>
      di_reachable d
      \<and> di_last_seen d \<noteq> [] \<and> di_last_seen d = isoformat (clock_now net)
      \<and> di_response_time d = snd (is_host_reachable net ip)
      \<and> (di_discovery_method d = ''SNMP'' \<or> di_discovery_method d = ''SSH'')"
    using discover_single_device_result [of net snmp_communities ip d] isoformat_nonempty [of "clock_now net"]
    by (simp add: is_host_reachable_def)
  moreover have "probe_connect net ip \<noteq> Connected \<Longrightarrow>
        fst (is_host_reachable net ip) = False
        \<and> discover_single_device net snmp_communities ip = None"
    using discover_unreachable [of net ip snmp_communities]
    by (cases "probe_connect net ip") (simp_all add: is_host_reachable_def)
  ultimately show ?thesis by blast
qed

theorem discover_single_device_invariant_witness:
  "discover_single_device example_network [''public'', ''private''] ''10.0.0.1'' =
     Some (example_device ''10.0.0.1'')
   \<and> di_reachable (example_device ''10.0.0.1'')
   \<and> di_last_seen (example_device ''10.0.0.1'') = ''2024-05-17T09:30:00''
   \<and> di_response_time (example_device ''10.0.0.1'') = 12
   \<and> di_discovery_method (example_device ''10.0.0.1'') = ''SNMP''
   \<and> probe_connect example_network ''10.0.0.9'' = Refused
   \<and> discover_single_device example_network [''public'', ''private''] ''10.0.0.9'' = None"
proof -
  have a: "discover_single_device example_network [''public'', ''private''] ''10.0.0.1'' =
     Some (example_device ''10.0.0.1'')"
    by (simp add: example_discovery)
  have b: "probe_connect example_network ''10.0.0.9'' = Refused"
    by (simp add: example_network_def)
  show ?thesis
    using discover_single_device_invariant [of example_network "[''public'', ''private'']"
        "''10.0.0.1''" "example_device ''10.0.0.1''"]
      discover_single_device_invariant [of example_network "[''public'', ''private'']"
        "''10.0.0.9''" "example_device ''10.0.0.1''"]
      a b
    by (simp add: example_now example_reachable example_device_def new_DeviceInfo_def)
qed

subsection \<open>Address ranges\<close>

lemma parse_octet_bound: "parse_octet s = Some n \<Longrightarrow> n \<le> 255"
  by (auto simp: parse_octet_def split: if_splits)

lemma ipv4_int_bound:
  assumes "ipv4_int_from_string s = Some n"
  shows "n < 2 ^ 32"
proof -
  from assms obtain a b c d where
    n: "n = ((a * 256 + b) * 256 + c) * 256 + d" and
    o: "map parse_octet (split_on CHR ''.'' s) = [Some a, Some b, Some c, Some d]"
    by (auto simp: ipv4_int_from_string_def split: if_splits list.splits option.splits)
  from o obtain w x y z where "parse_octet w = Some a" "parse_octet x = Some b"
    "parse_octet y = Some c" "parse_octet z = Some d"
    by (auto simp: map_eq_Cons_conv)
  then have "a \<le> 255" "b \<le> 255" "c \<le> 255" "d \<le> 255"
    using parse_octet_bound by blast+
  then show ?thesis
    unfolding n by simp
qed

lemma ip_address_of_ok: "ip_address_of lib s = Some a \<Longrightarrow> address_ok a"
proof -
  assume a: "ip_address_of lib s = Some a"
  show ?thesis
  proof (cases "ipv4_address s")
    case (Some n)
    then have "n < 2 ^ 32"
      using ipv4_int_bound [of s n] by (simp add: ipv4_address_def split: if_splits)
    with a Some show ?thesis by (auto simp: ip_address_of_def address_ok_def)
  next
    case None
    with a obtain w :: "128 word" where "a = IPv6Address (unat w)"
      by (auto simp: ip_address_of_def)
    moreover have "unat w < 2 ^ 128"
      using unsigned_less [of w, where 'a = nat] by simp
    ultimately show ?thesis by (simp add: address_ok_def)
  qed
qed

lemma range_loop_fst:
  "address_ok end \<Longrightarrow>
   fst (range_loop lib current end all_ips) =
     all_ips @ map (address_str lib) (range_addresses current end)"
proof (induction lib current "end" all_ips rule: range_loop.induct)
  case (1 lib current endv all_ips)
  show ?case
  proof (cases "address_le current endv")
    case (Inl e)
    then show ?thesis
      by (subst range_loop.simps)
        (auto simp: address_le_def range_addresses_def split: ip_address.splits)
  next
    case (Inr le)
    show ?thesis
    proof (cases le)
      case False
      with Inr show ?thesis
        by (subst range_loop.simps)
          (auto simp: address_le_def range_addresses_def split: ip_address.splits)
    next
      case True
      show ?thesis
      proof (cases "address_add1 current")
        case (Inl e)
        have "range_addresses current endv = [current]"
          using Inr True Inl "1.prems"
          by (auto simp: address_le_def address_add1_def range_addresses_def address_ok_def
              upt_conv_Cons split: ip_address.splits if_splits)
        with Inr True Inl show ?thesis
          by (subst range_loop.simps) simp
      next
        case (Inr nxt)
        have ra: "range_addresses current endv = current # range_addresses nxt endv"
          using \<open>address_le current endv = Inr le\<close> True Inr
          by (auto simp: address_le_def address_add1_def range_addresses_def upt_conv_Cons
              split: ip_address.splits if_splits)
        have ih: "fst (range_loop lib nxt endv (all_ips @ [address_str lib current])) =
            (all_ips @ [address_str lib current]) @ map (address_str lib) (range_addresses nxt endv)"
          using "1.IH" [of le nxt] \<open>address_le current endv = Inr le\<close> True Inr "1.prems"
          by simp
        show ?thesis
          using \<open>address_le current endv = Inr le\<close> True Inr ih
          by (subst range_loop.simps) (simp add: ra)
      qed
    qed
  qed
qed

lemma expand_token_fst:
  "fst (expand_token lib token all_ips) = all_ips @ token_addresses lib token"
proof -
  have r: "\<And>start endv. ip_address_of lib (strip endv) = Some e \<Longrightarrow>
     fst (range_loop lib a e all_ips) = all_ips @ map (address_str lib) (range_addresses a e)" for a e
    using range_loop_fst ip_address_of_ok by blast
  show ?thesis
    unfolding expand_token_def token_addresses_def
    by (auto split: option.splits list.splits simp: r)
qed

lemma expand_ranges_fst:
  "fst (expand_ranges lib tokens all_ips errors) =
     all_ips @ concat (map (token_addresses lib) tokens)"
proof (induction tokens arbitrary: all_ips errors)
  case Nil
  then show ?case by simp
next
  case (Cons t ts)
  obtain ips e where t: "expand_token lib t all_ips = (ips, e)"
    by (cases "expand_token lib t all_ips")
  then have ips: "ips = all_ips @ token_addresses lib t"
    using expand_token_fst [of lib t all_ips] by simp
  show ?case
    using t Cons.IH by (cases e) (simp_all add: ips)
qed





lemmas ipv4_parse_defs = ipv4_network_def ipv4_address_def ipv4_int_from_string_def
  parse_octet_def is_ascii_digit_def int_of_digits_def make_netmask_def
  prefix_from_prefix_string_def



lemma example_str_nat: "str_nat 192 = ''192''" "str_nat 168 = ''168''" "str_nat 10 = ''10''"
  "str_nat 0 = ''0''" "str_nat (Suc 0) = ''1''" "str_nat 2 = ''2''" "str_nat 3 = ''3''"
  by code_simp+

lemma example_ipv4_str: "ipv4_str 3232235777 = ''192.168.1.1''" "ipv4_str 3232235778 = ''192.168.1.2''"
  "ipv4_str 167772161 = ''10.0.0.1''" "ipv4_str 167772162 = ''10.0.0.2''" "ipv4_str 167772163 = ''10.0.0.3''"
  by (simp_all add: ipv4_str_def example_str_nat)





lemma addresses_to_scan_all:
  "addresses_to_scan lib self tokens False = concat (map (token_addresses lib) tokens)"
  using expand_ranges_fst [of lib tokens "[]" "[]"] by (simp add: addresses_to_scan_def)




subsection \<open>Inventory merge and summary\<close>

lemma map_of_dict_set: "map_of (dict_set d k v) = (map_of d)(k \<mapsto> v)"
  by (induction d) auto

lemma dict_keys_dict_set:
  "dict_keys (dict_set d k v) = (if k \<in> set (dict_keys d) then dict_keys d else dict_keys d @ [k])"
proof (induction d)
  case Nil
  then show ?case by (simp add: dict_keys_def)
next
  case (Cons a d)
  obtain k' v' where a: "a = (k', v')" by (cases a)
  show ?case
    using Cons a by (cases "k' = k") (simp_all add: dict_keys_def)
qed

lemma map_of_dict_update:
  "distinct (dict_keys e) \<Longrightarrow> map_of (dict_update d e) = map_of d ++ map_of e"
proof (induction e arbitrary: d)
  case Nil
  then show ?case by simp
next
  case (Cons a e)
  obtain k v where a: "a = (k, v)" by (cases a)
  have k: "k \<notin> fst ` set e" and e: "distinct (dict_keys e)"
    using Cons.prems a by (auto simp: dict_keys_def)
  have n: "map_of e k = None"
    using k by (simp add: map_of_eq_None_iff)
  have "map_of (dict_update d (a # e)) = map_of (dict_set d k v) ++ map_of e"
    using Cons.IH [OF e, of "dict_set d k v"] a by simp
  also have "\<dots> = (map_of d)(k \<mapsto> v) ++ map_of e"
    by (simp only: map_of_dict_set)
  also have "\<dots> = map_of d ++ map_of (a # e)"
  proof (rule ext)
    fix x
    show "((map_of d)(k \<mapsto> v) ++ map_of e) x = (map_of d ++ map_of (a # e)) x"
      using n a by (cases "x = k") (simp_all add: map_add_def split: option.splits)
  qed
  finally show ?case .
qed

lemma all_devices_new_wins:
  assumes "distinct (dict_keys (dd_discovered_devices self))"
  shows "dict_get (all_devices self) ip =
     (case dict_get (dd_discovered_devices self) ip of
        Some device \<Rightarrow> Some device
      | None \<Rightarrow> dict_get (dd_known_devices self) ip)"
  unfolding all_devices_def dict_get_def map_of_dict_update [OF assms] map_add_def ..

lemma scenario_scan: "addresses_to_scan ipv4_only example_state [''10.0.0.1-10.0.0.2''] False = [''10.0.0.1'', ''10.0.0.2'']"
proof -
  have a: "ip_address_of ipv4_only ''10.0.0.1'' = Some (IPv4Address 167772161)"
    "ip_address_of ipv4_only ''10.0.0.2'' = Some (IPv4Address 167772162)"
    by (simp_all add: ip_address_of_def ipv4_parse_defs)
  have s: "strip ''10.0.0.1'' = ''10.0.0.1''" "strip ''10.0.0.2'' = ''10.0.0.2''"
    by (simp_all add: strip_def is_space_def)
  have "token_addresses ipv4_only ''10.0.0.1-10.0.0.2'' = [''10.0.0.1'', ''10.0.0.2'']"
    by (simp add: token_addresses_def s a range_addresses_def upt_conv_Cons address_str_def
        example_ipv4_str)
  then show ?thesis
    using addresses_to_scan_all [of ipv4_only example_state "[''10.0.0.1-10.0.0.2'']"]
    by simp
qed

lemma scenario_after: "example_state_after =
     \<lparr>dd_known_devices = [(''10.0.0.1'', old_device)],
      dd_discovered_devices = [(''10.0.0.1'', example_device ''10.0.0.1''), (''10.0.0.2'', example_device ''10.0.0.2'')],
      dd_snmp_communities = [''public'', ''private'']\<rparr>"
  by (simp add: example_state_after_def discover_network_def scenario_scan Let_def)
     (simp add: example_state_def example_discovery)

lemma scenario_merge: "ex_devices (export_data_of t example_state_after) = [example_device ''10.0.0.1'', example_device ''10.0.0.2'']"
  by (simp add: export_data_of_def all_devices_def scenario_after dict_values_def)

lemma scenario_newly_discovered: "sm_newly_discovered (generate_summary_report t example_state_after) = 2"
  by (simp add: generate_summary_report_def scenario_after Let_def)

lemma scenario_refreshed: "example_device ''10.0.0.1'' \<noteq> old_device"
  by (simp add: example_device_def old_device_def new_DeviceInfo_def)

lemma scenario_saved:
  "save_inventory example_export_renderers example_dump ''2024-05-17T09:31:00'' ''20240517_093100''
     example_state_after (Some [''json'', ''csv'']) ''output/inventory.json'' Map.empty =
   ([''output/inventory_20240517_093100.json''],
    [''output'' \<mapsto> Dir,
     ''output/inventory_20240517_093100.json'' \<mapsto> File ''10.0.0.1;10.0.0.2;'',
     ''output/inventory.json'' \<mapsto> File ''10.0.0.1;10.0.0.2;''])"
proof -
  have l: "lower ''json'' = ''json''" "lower ''csv'' = ''csv''"
    by code_simp+
  have d: "example_dump (export_data_of ''2024-05-17T09:31:00'' example_state_after) =
      (''10.0.0.1;10.0.0.2;'', None)"
    by (simp add: example_dump_def scenario_merge example_device_def new_DeviceInfo_def)
  have n: "dirname ''output/inventory.json'' = ''output''"
    by (simp add: dirname_def path_name_def)
  show ?thesis
    by (simp add: save_inventory_def Let_def format_output_def l format_json_def format_csv_def
        write_then_fail_def render_then_write_def write_text_def mkdir_exist_ok_def joinpath_def
        example_export_renderers_def d n)
qed

text \<open>
  Claim C2, on the code. With the address \<open>10.0.0.1\<close> in the loaded inventory, a run
  that discovers \<open>10.0.0.1\<close> again and \<open>10.0.0.2\<close> for the first time leaves both in
  \<open>discovered_devices\<close>; the merged inventory that is saved holds exactly two records,
  the newly made one for \<open>10.0.0.1\<close> (not the loaded one) and the one for \<open>10.0.0.2\<close>;
  the summary's \<open>newly_discovered\<close> is the size of \<open>discovered_devices\<close>, which is 2 and
  not 1.
\<close>

theorem inventory_merge_newly_discovered:
  "dd_known_devices example_state = [(''10.0.0.1'', old_device)]
   \<and> discover_network ipv4_only example_network example_state [''10.0.0.1-10.0.0.2''] False =
       ([(''10.0.0.1'', example_device ''10.0.0.1''), (''10.0.0.2'', example_device ''10.0.0.2'')],
        example_state_after)
   \<and> ex_devices (export_data_of ''2024-05-17T09:31:00'' example_state_after) =
       [example_device ''10.0.0.1'', example_device ''10.0.0.2'']
   \<and> example_device ''10.0.0.1'' \<noteq> old_device
   \<and> snd (save_inventory example_export_renderers example_dump ''2024-05-17T09:31:00''
          ''20240517_093100'' example_state_after (Some [''json'', ''csv'']) ''output/inventory.json''
          Map.empty) ''output/inventory.json'' = Some (File ''10.0.0.1;10.0.0.2;'')
   \<and> sm_total_devices (generate_summary_report ''2024-05-17T09:31:00'' example_state_after) = 2
   \<and> sm_newly_discovered (generate_summary_report ''2024-05-17T09:31:00'' example_state_after) = 2"
proof -
  have run: "discover_network ipv4_only example_network example_state [''10.0.0.1-10.0.0.2''] False =
       ([(''10.0.0.1'', example_device ''10.0.0.1''), (''10.0.0.2'', example_device ''10.0.0.2'')],
        example_state_after)"
    unfolding scenario_after
    by (simp add: discover_network_def scenario_scan Let_def)
      (simp add: example_state_def example_discovery)
  have total: "sm_total_devices (generate_summary_report ''2024-05-17T09:31:00'' example_state_after) = 2"
    by (simp add: generate_summary_report_def all_devices_def scenario_after dict_values_def Let_def)
  show ?thesis
    using run total scenario_merge scenario_refreshed scenario_saved scenario_newly_discovered
    by (simp add: example_state_def)
qed

end
